theory Spec2Isabelle
  imports Main
begin

section \<open>Webhook verification: verify-webhook of the Cloud application\<close>

text \<open>
  The three query parameters are read with \<^verbatim>\<open>request.args.get\<close>, which gives
  \<^verbatim>\<open>None\<close> for a parameter that is not supplied, and the verify token with
  \<^verbatim>\<open>os.environ.get("WHATSAPP_VERIFY_TOKEN", "your-verify-token")\<close>: the default
  stands in only when the variable is unset. The handler returns a pair of a body and
  an HTTP status.
\<close>

definition verify_webhook ::
  "string option \<Rightarrow> string option \<Rightarrow> string option \<Rightarrow> string option \<Rightarrow> string option \<times> nat"
where
  "verify_webhook environ_token mode token challenge =
     (let verify_token = (case environ_token of None \<Rightarrow> ''your-verify-token'' | Some v \<Rightarrow> v)
      in if mode = Some ''subscribe'' \<and> token = Some verify_token
         then (challenge, 200)
         else (Some ''Forbidden'', 403))"

section \<open>Splitting a long reply (the relay step of both handlers)\<close>

text \<open>
  \<^verbatim>\<open>range(i, stop, step)\<close> for a positive step, as the \<^verbatim>\<open>for\<close> loop walks it.
  Python raises ValueError for a step of zero; the handlers only use the step 1500.
\<close>

function py_range :: "nat \<Rightarrow> nat \<Rightarrow> nat \<Rightarrow> nat list" where
  "py_range i stop step =
     (if i < stop \<and> 0 < step then i # py_range (i + step) stop step else [])"
  by pat_completeness auto
termination
  by (relation "measure (\<lambda>(i, stop, step). stop - i)") auto

declare py_range.simps [simp del]

text \<open>
  The body of the loop up to the send:
  \<^verbatim>\<open>chunk = reply[i:i+1500]\<close>, then \<^verbatim>\<open>chunk += "..."\<close> when
  \<^verbatim>\<open>i + 1500 < len(reply)\<close>.
\<close>

definition chunk_at :: "string \<Rightarrow> nat \<Rightarrow> string" where
  "chunk_at reply i =
     (let chunk = take 1500 (drop i reply)
      in if i + 1500 < length reply then chunk @ ''...'' else chunk)"

text \<open>
  The texts the relay step hands to \<^verbatim>\<open>send_message\<close>, in the order of the calls:
  the loop is entered only when \<^verbatim>\<open>len(reply) > 1600\<close>, otherwise the reply goes
  out as it is.
\<close>

definition reply_chunks :: "string \<Rightarrow> string list" where
  "reply_chunks reply =
     (if length reply > 1600
      then map (chunk_at reply) (py_range 0 (length reply) 1500)
      else [reply])"

text \<open>Removing the truncation suffix from every chunk but the last, and joining.\<close>

definition rejoin :: "string list \<Rightarrow> string" where
  "rejoin cs = concat (map (\<lambda>c. take (length c - 3) c) (butlast cs)) @ last cs"


section \<open>Python values the handlers work on\<close>

text \<open>
  The exceptions that can be raised along the two handlers. \<open>RequestException\<close> is what
  the transport raises for a failed HTTP request, \<open>APIError\<close> stands for a failure of
  the completion or image service.
\<close>

datatype exn = KeyError | IndexError | TypeError | AttributeError | ValueError
  | RequestException | APIError

text \<open>
  A character stands for one code point below 256. \<^verbatim>\<open>str.isspace\<close> holds there for
  the code points 9 to 13, 28 to 32, 133 and 160; \<^verbatim>\<open>str.strip()\<close> removes such
  characters from both ends.
\<close>

definition py_isspace :: "char \<Rightarrow> bool" where
  "py_isspace c =
     (let n = (of_char c :: nat)
      in (9 \<le> n \<and> n \<le> 13) \<or> (28 \<le> n \<and> n \<le> 32) \<or> n = 133 \<or> n = 160)"

definition strip :: "string \<Rightarrow> string" where
  "strip s = rev (dropWhile py_isspace (rev (dropWhile py_isspace s)))"

section \<open>Conversation data\<close>

text \<open>
  Modelled from the spec: the classes \<^verbatim>\<open>Sender\<close> and \<^verbatim>\<open>OpenAIChatManager\<close>
  (module app.whatsapp.chat) are not among the sources. The data model of the spec
  gives their attributes: a sender has a channel address and a display name; a
  conversation has its sender, the ordered transcript, the rendered system message,
  the goodbye template and its configuration, of which the reply language is the part
  the language bootstrap sets. A message is a dictionary with the keys "role" and
  "content", as the Cloud handler reads it.
\<close>

record message =
  role :: string
  content :: string

record sender =
  phone_number :: string
  name :: string

record chat_manager =
  sender :: sender
  messages :: "message list"
  start_system_message :: "string option"
  goodbye_message :: string
  language :: "string option"

text \<open>
  What a turn does to the world outside the conversation object, in program order:
  every call of a collaborator leaves one event. A text that reached the channel is
  \<open>SendText\<close>; an attempt the channel refused is \<open>SendFailed\<close>.
\<close>

datatype event =
    SendText string string
  | SendFailed string string
  | SendImage string string string
  | SendImageFailed string string
  | MarkAsRead string
  | MarkAsReadFailed string
  | Transcription string
  | EnsureUserLanguage string
  | AddMessage string string
  | ImageGeneration string
  | Save "message list"

text \<open>
  The collaborators of one turn. The configuration (\<open>start_template\<close>, read from the
  environment at import time), the clock, the built-in \<^verbatim>\<open>str.format\<close> and the external
  services are parameters: the completion, transcription and image services may raise.
  \<open>image_content\<close> is the content of a turn that carries a readable image, which the
  spec leaves open.
  \<open>verify_image_generation\<close> and \<open>check_conversation_end\<close> are functions of the module
  app.handlers, which is not among the sources; the handlers only pass values through
  them. \<open>post_ok n\<close> tells whether the channel accepts the \<open>n\<close>-th outbound request.
\<close>

record env =
  start_template :: "string option"
  today :: string
  str_format :: "string \<Rightarrow> (string \<times> string) list \<Rightarrow> exn + string"
  chatgpt_completion :: "message list \<Rightarrow> exn + string"
  verify_image_generation :: "string \<Rightarrow> string \<times> string option"
  check_conversation_end :: "string option \<Rightarrow> chat_manager \<Rightarrow> bool"
  language_detection :: "string \<Rightarrow> string"
  whisper_transcription :: "string \<Rightarrow> exn + string"
  image_content :: "string \<Rightarrow> string option"
  text_to_image :: "string \<Rightarrow> exn + string option"
  post_ok :: "nat \<Rightarrow> bool"

text \<open>
  The state a handler runs on: the conversation object that \<^verbatim>\<open>get_or_create\<close> returns
  for the sender (the same object on every turn, so what a turn does to it stays, also
  when the turn ends in an exception), the events so far and the number of outbound
  requests so far. A step returns the exception or the value, and the state.
\<close>

record st =
  chat :: chat_manager
  trace :: "event list"
  posts :: nat

type_synonym 'a res = "(exn + 'a) \<times> st"

definition emit :: "event list \<Rightarrow> st \<Rightarrow> st" where
  "emit es s = s\<lparr>trace := trace s @ es\<rparr>"

definition request :: "event list \<Rightarrow> st \<Rightarrow> st" where
  "request es s = s\<lparr>trace := trace s @ es, posts := Suc (posts s)\<rparr>"

definition didnt_understand :: string where
  "didnt_understand = ''Sorry, I didn't understand that. Please try again.''"

definition image_apology :: string where
  "image_apology = ''Sorry, I couldn't generate the image. Please try again.''"

subsection \<open>Methods of the conversation object\<close>

text \<open>
  Modelled from the spec: \<^verbatim>\<open>make_message\<close>, \<^verbatim>\<open>add_message\<close> and \<^verbatim>\<open>save\<close> of
  \<^verbatim>\<open>OpenAIChatManager\<close>. A message is built from its content and role, appending
  puts it at the end of the transcript, and saving persists the transcript as it is.
\<close>

definition make_message :: "string \<Rightarrow> string \<Rightarrow> message" where
  "make_message text r = \<lparr>role = r, content = text\<rparr>"

definition add_message :: "string \<Rightarrow> string \<Rightarrow> st \<Rightarrow> st" where
  "add_message text r s =
     emit [AddMessage r text]
       (s\<lparr>chat := (chat s)\<lparr>messages := messages (chat s) @ [make_message text r]\<rparr>\<rparr>)"

definition save :: "st \<Rightarrow> st" where
  "save s = emit [Save (messages (chat s))] s"

text \<open>
  Modelled from the spec: \<^verbatim>\<open>ensure_user_language\<close> of app.handlers. It calls the
  language detection on the text and puts the result into the configuration of the
  conversation; the transcript is not touched.
\<close>

definition ensure_user_language :: "env \<Rightarrow> string \<Rightarrow> st \<Rightarrow> st" where
  "ensure_user_language env text s =
     emit [EnsureUserLanguage text]
       (s\<lparr>chat := (chat s)\<lparr>language := Some (language_detection env text)\<rparr>\<rparr>)"

section \<open>The Twilio handler: app/whatsapp/app.py\<close>

text \<open>
  Modelled from the spec: \<^verbatim>\<open>TwilioWhatsAppClient.send_message\<close> (module
  chat.clients.twilio) is not among the sources. A send failure is swallowed at this
  boundary; when the caller gave an \<^verbatim>\<open>on_failure\<close> text, that text is emitted in place
  of the failed one.
\<close>

definition twilio_send_message :: "env \<Rightarrow> string \<Rightarrow> string \<Rightarrow> string option \<Rightarrow> st \<Rightarrow> st" where
  "twilio_send_message env body to on_failure s =
     (if post_ok env (posts s) then request [SendText to body] s
      else (case on_failure of
              None \<Rightarrow> request [SendFailed to body] s
            | Some apology \<Rightarrow> request [SendFailed to body, SendText to apology] s))"

text \<open>
  Modelled from the spec: the parsed inbound message and \<^verbatim>\<open>verify_and_process_media\<close>
  of app.handlers. An inbound message has a text body and may carry media, of the kind
  audio or image, with a reference to the payload; the reference is absent when the
  media is empty or could not be retrieved. Audio goes to the transcription service,
  whose text is the content of the turn; an error of the service is not handled here
  and leaves the handler. An empty or failed media payload yields the empty string.
  The body of a message that carries no media is the content as it is.
\<close>

datatype media_kind = AudioMedia | ImageMedia

record inbound =
  body :: "string option"
  media :: "(media_kind \<times> string option) option"

definition verify_and_process_media :: "env \<Rightarrow> inbound \<Rightarrow> st \<Rightarrow> (string option) res" where
  "verify_and_process_media env new_message s =
     (case media new_message of
        None \<Rightarrow> (Inr (body new_message), s)
      | Some (kind, None) \<Rightarrow> (Inr (Some []), s)
      | Some (ImageMedia, Some ref) \<Rightarrow> (Inr (image_content env ref), s)
      | Some (AudioMedia, Some ref) \<Rightarrow>
          (case whisper_transcription env ref of
             Inl e \<Rightarrow> (Inl e, emit [Transcription ref] s)
           | Inr text \<Rightarrow> (Inr (Some text), emit [Transcription ref] s)))"

text \<open>
  Modelled from the spec: \<^verbatim>\<open>check_and_send_image_generation\<close> of app.handlers, as the
  Twilio handler calls it. It invokes the image service with the prompt, relays the
  image on success and sends a fixed apology on failure; it does not raise.
\<close>

definition check_and_send_image_generation :: "env \<Rightarrow> string \<Rightarrow> st \<Rightarrow> st" where
  "check_and_send_image_generation env img_prompt s =
     (let to = phone_number (sender (chat s)); s1 = emit [ImageGeneration img_prompt] s
      in case text_to_image env img_prompt of
           Inr (Some url) \<Rightarrow> request [SendImage to url []] s1
         | Inr None \<Rightarrow> request [SendText to image_apology] s1
         | Inl e \<Rightarrow> request [SendText to image_apology] s1)"

text \<open>Lines 72 to 76: the system message is rendered again and written to index 0.\<close>

definition set_system_message :: "env \<Rightarrow> sender \<Rightarrow> st \<Rightarrow> unit res" where
  "set_system_message env sndr s =
     (case start_template env of
        None \<Rightarrow> (Inr (), s)
      | Some template \<Rightarrow>
          if template = [] then (Inr (), s)
          else (case str_format env template [(''user'', name sndr), (''today'', today env)] of
                  Inl e \<Rightarrow> (Inl e, s)
                | Inr text \<Rightarrow>
                    (let c = (chat s)\<lparr>start_system_message := Some text\<rparr>
                     in if messages c = [] then (Inl IndexError, s\<lparr>chat := c\<rparr>)
                        else (Inr (), s\<lparr>chat := c\<lparr>messages :=
                                (messages c)[0 := make_message text ''system'']\<rparr>\<rparr>))))"

definition check_message_empty :: "string option \<Rightarrow> chat_manager \<Rightarrow> bool" where
  "check_message_empty msg c = (case msg of None \<Rightarrow> True | Some m \<Rightarrow> strip m = [])"

definition message_empty_or_goodbye :: "env \<Rightarrow> string option \<Rightarrow> st \<Rightarrow> bool res" where
  "message_empty_or_goodbye env msg s =
     (if check_message_empty msg (chat s)
      then (Inr True,
            twilio_send_message env didnt_understand (phone_number (sender (chat s))) None s)
      else if check_conversation_end env msg (chat s)
      then (case str_format env (goodbye_message (chat s)) [(''user'', name (sender (chat s)))] of
              Inl e \<Rightarrow> (Inl e, s)
            | Inr text \<Rightarrow>
                (Inr True,
                 twilio_send_message env text (phone_number (sender (chat s))) None s))
      else (Inr False, s))"

text \<open>Lines 94 to 111: the reply is sent, in pieces when it is longer than 1600.\<close>

definition send_reply :: "env \<Rightarrow> string \<Rightarrow> st \<Rightarrow> st" where
  "send_reply env text s =
     twilio_send_message env text (phone_number (sender (chat s))) (Some didnt_understand) s"

definition relay_reply :: "env \<Rightarrow> string \<Rightarrow> st \<Rightarrow> st" where
  "relay_reply env reply s =
     (if length reply > 1600
      then fold (\<lambda>i. send_reply env (chunk_at reply i)) (py_range 0 (length reply) 1500) s
      else send_reply env reply s)"

definition img_marker :: "string \<Rightarrow> string" where
  \<open>img_marker img_prompt = ''[img:"'' @ img_prompt @ ''"]''\<close>

text \<open>
  Lines 84 to 123, the part of the handler after the termination check; \<open>msg\<close> is a
  string there. An empty prompt is false in \<^verbatim>\<open>if img_prompt\<close>, as \<^verbatim>\<open>None\<close> is.
\<close>

definition generate_and_relay :: "env \<Rightarrow> string \<Rightarrow> st \<Rightarrow> string res" where
  "generate_and_relay env msg s =
     (let s1 = (if length (messages (chat s)) = 1 then ensure_user_language env msg s else s);
          s2 = add_message msg ''user'' s1
      in case chatgpt_completion env (messages (chat s2)) of
           Inl e \<Rightarrow> (Inl e, s2)
         | Inr completion \<Rightarrow>
             (let (reply, img_prompt) = verify_image_generation env (strip completion);
                  s3 = relay_reply env reply s2;
                  s4 = add_message reply ''assistant'' s3;
                  s5 = (case img_prompt of
                          None \<Rightarrow> s4
                        | Some p \<Rightarrow>
                            if p = [] then s4
                            else check_and_send_image_generation env p
                                   (add_message (img_marker p) ''system'' s4))
              in (Inr ''ok'', save s5)))"

text \<open>
  The handler. It returns the status of the JSON answer, or the exception that leaves it.
\<close>

definition reply_to_whatsapp_message :: "env \<Rightarrow> sender \<Rightarrow> inbound \<Rightarrow> st \<Rightarrow> string res" where
  "reply_to_whatsapp_message env sndr new_message s =
     (case set_system_message env sndr s of
        (Inl e, s1) \<Rightarrow> (Inl e, s1)
      | (Inr u, s1) \<Rightarrow>
          (case verify_and_process_media env new_message s1 of
             (Inl e, s2) \<Rightarrow> (Inl e, s2)
           | (Inr msg, s2) \<Rightarrow>
               (case message_empty_or_goodbye env msg s2 of
                  (Inl e, s3) \<Rightarrow> (Inl e, s3)
                | (Inr stop, s3) \<Rightarrow>
                    if stop then (Inr ''ok'', s3)
                    else generate_and_relay env (case msg of None \<Rightarrow> [] | Some m \<Rightarrow> m) s3)))"


section \<open>The Cloud API client: chat/clients/whatsapp-cloud.py\<close>

text \<open>
  The three methods of \<^verbatim>\<open>WhatsAppCloudClient\<close> post one request each and raise again
  what the request raised, after logging it.
\<close>

definition send_message :: "env \<Rightarrow> string \<Rightarrow> string \<Rightarrow> st \<Rightarrow> unit res" where
  "send_message env to text s =
     (if post_ok env (posts s) then (Inr (), request [SendText to text] s)
      else (Inl RequestException, request [SendFailed to text] s))"

definition send_image :: "env \<Rightarrow> string \<Rightarrow> string \<Rightarrow> string \<Rightarrow> st \<Rightarrow> unit res" where
  "send_image env to image_url caption s =
     (if post_ok env (posts s) then (Inr (), request [SendImage to image_url caption] s)
      else (Inl RequestException, request [SendImageFailed to image_url] s))"

definition mark_as_read :: "env \<Rightarrow> string \<Rightarrow> st \<Rightarrow> unit res" where
  "mark_as_read env message_id s =
     (if post_ok env (posts s) then (Inr (), request [MarkAsRead message_id] s)
      else (Inl RequestException, request [MarkAsReadFailed message_id] s))"

subsection \<open>The webhook body\<close>

text \<open>
  The body of the webhook as \<^verbatim>\<open>request.get_json()\<close> gives it: any JSON value. An object
  is the list of its members in the order of the text; a later member of the same name
  overrides an earlier one, as in the dictionary Python builds. A number stands with
  its integer value: the handler never computes with one.
\<close>

datatype json = JNull | JBool bool | JNum int | JStr string
  | JArr "json list" | JObj "(string \<times> json) list"

definition lookup :: "(string \<times> json) list \<Rightarrow> string \<Rightarrow> json option" where
  "lookup members k = map_of (rev members) k"

text \<open>
  \<^verbatim>\<open>v[k]\<close> for a string \<open>k\<close>: a dictionary gives the value or KeyError, every other
  value TypeError (a list and a string want an integer, the rest is not subscriptable).
\<close>

definition getitem :: "json \<Rightarrow> string \<Rightarrow> exn + json" where
  "getitem v k =
     (case v of
        JObj members \<Rightarrow> (case lookup members k of None \<Rightarrow> Inl KeyError | Some x \<Rightarrow> Inr x)
      | _ \<Rightarrow> Inl TypeError)"

text \<open>
  \<^verbatim>\<open>v[0]\<close>: the first element of a list or the first character of a string, IndexError
  when there is none; KeyError on a dictionary, whose keys are strings; TypeError on the
  rest.
\<close>

definition getitem0 :: "json \<Rightarrow> exn + json" where
  "getitem0 v =
     (case v of
        JArr xs \<Rightarrow> (case xs of [] \<Rightarrow> Inl IndexError | x # rest \<Rightarrow> Inr x)
      | JStr cs \<Rightarrow> (case cs of [] \<Rightarrow> Inl IndexError | c # rest \<Rightarrow> Inr (JStr [c]))
      | JObj members \<Rightarrow> Inl KeyError
      | _ \<Rightarrow> Inl TypeError)"

fun is_substring :: "string \<Rightarrow> string \<Rightarrow> bool" where
  "is_substring k [] = (k = [])"
| "is_substring k (c # cs) = (take (length k) (c # cs) = k \<or> is_substring k cs)"

text \<open>
  \<^verbatim>\<open>k in v\<close> for a string \<open>k\<close>: a key of a dictionary, an element of a list, a
  substring of a string; TypeError on a value that is not iterable.
\<close>

definition contains :: "json \<Rightarrow> string \<Rightarrow> exn + bool" where
  "contains v k =
     (case v of
        JObj members \<Rightarrow> Inr (lookup members k \<noteq> None)
      | JArr xs \<Rightarrow> Inr (JStr k \<in> set xs)
      | JStr cs \<Rightarrow> Inr (is_substring k cs)
      | _ \<Rightarrow> Inl TypeError)"

text \<open>
  \<^verbatim>\<open>v.get(k, d)\<close>: only a dictionary has the method; AttributeError on the rest.
\<close>

definition get :: "json \<Rightarrow> string \<Rightarrow> json \<Rightarrow> exn + json" where
  "get v k d =
     (case v of
        JObj members \<Rightarrow> (case lookup members k of None \<Rightarrow> Inr d | Some x \<Rightarrow> Inr x)
      | _ \<Rightarrow> Inl AttributeError)"

definition and_then :: "exn + 'a \<Rightarrow> ('a \<Rightarrow> exn + 'b) \<Rightarrow> exn + 'b" where
  "and_then r f = (case r of Inl e \<Rightarrow> Inl e | Inr x \<Rightarrow> f x)"

record message_data =
  md_from :: json
  md_name :: json
  md_message_id :: json
  md_timestamp :: json
  md_type :: json
  md_text :: json
  md_image :: json
  md_audio :: json

text \<open>
  The body of the \<^verbatim>\<open>try\<close> of \<^verbatim>\<open>parse_whatsapp_message\<close>, the values of the
  dictionary evaluated in the order they are written. Without "messages" in the value
  the function falls off its end and returns \<^verbatim>\<open>None\<close>.
\<close>

definition parse_body :: "json \<Rightarrow>  exn + message_data option" where
  "parse_body webhook_data =
     and_then (getitem webhook_data ''entry'') (\<lambda>entries.
     and_then (getitem0 entries) (\<lambda>entry.
     and_then (getitem entry ''changes'') (\<lambda>changes_list.
     and_then (getitem0 changes_list) (\<lambda>changes.
     and_then (getitem changes ''value'') (\<lambda>val.
     and_then (contains val ''messages'') (\<lambda>has_messages.
       if \<not> has_messages then Inr None
       else
         and_then (getitem val ''messages'') (\<lambda>message_list.
         and_then (getitem0 message_list) (\<lambda>message.
         and_then (getitem val ''contacts'') (\<lambda>contact_list.
         and_then (getitem0 contact_list) (\<lambda>contact.
         and_then (getitem message ''from'') (\<lambda>from_v.
         and_then (getitem contact ''profile'') (\<lambda>profile.
         and_then (getitem profile ''name'') (\<lambda>name_v.
         and_then (getitem message ''id'') (\<lambda>id_v.
         and_then (getitem message ''timestamp'') (\<lambda>timestamp_v.
         and_then (getitem message ''type'') (\<lambda>type_v.
         and_then (getitem message ''type'') (\<lambda>t1.
         and_then (if t1 = JStr ''text''
                   then and_then (get message ''text'' (JObj [])) (\<lambda>text_obj.
                          get text_obj ''body'' (JStr []))
                   else Inr JNull) (\<lambda>text_v.
         and_then (getitem message ''type'') (\<lambda>t2.
         and_then (if t2 = JStr ''image'' then get message ''image'' JNull else Inr JNull) (\<lambda>image_v.
         and_then (getitem message ''type'') (\<lambda>t3.
         and_then (if t3 = JStr ''audio'' then get message ''audio'' JNull else Inr JNull) (\<lambda>audio_v.
           Inr (Some \<lparr>md_from = from_v, md_name = name_v, md_message_id = id_v,
                      md_timestamp = timestamp_v, md_type = type_v, md_text = text_v,
                      md_image = image_v, md_audio = audio_v\<rparr>)))))))))))))))))))))))"

text \<open>
  \<^verbatim>\<open>except (KeyError, IndexError)\<close>: these two are logged and turned into
  \<^verbatim>\<open>None\<close>; any other exception leaves the function.
\<close>

definition parse_whatsapp_message :: "json \<Rightarrow> exn + message_data option" where
  "parse_whatsapp_message webhook_data =
     (case parse_body webhook_data of
        Inl e \<Rightarrow> if e = KeyError \<or> e = IndexError then Inr None else Inl e
      | Inr r \<Rightarrow> Inr r)"

section \<open>The Cloud handler: app/whatsapp-cloud-app.py\<close>

text \<open>
  Lines 105 to 110: the system message is rendered and kept in the conversation; it
  is put in front of the transcript only when the transcript is empty or does not start
  with a system message.
\<close>

definition ensure_system_message :: "env \<Rightarrow> string \<Rightarrow> st \<Rightarrow> unit res" where
  "ensure_system_message env sender_name s =
     (case start_template env of
        None \<Rightarrow> (Inr (), s)
      | Some template \<Rightarrow>
          if template = [] then (Inr (), s)
          else (case str_format env template [(''user'', sender_name), (''today'', today env)] of
                  Inl e \<Rightarrow> (Inl e, s)
                | Inr text \<Rightarrow>
                    (let c = (chat s)\<lparr>start_system_message := Some text\<rparr>
                     in if messages c = [] \<or> role (hd (messages c)) \<noteq> ''system''
                        then (Inr (), s\<lparr>chat := c\<lparr>messages :=
                                make_message text ''system'' # messages c\<rparr>\<rparr>)
                        else (Inr (), s\<lparr>chat := c\<rparr>))))"

text \<open>Lines 127 to 140: a send that fails raises, which ends the loop.\<close>

fun send_chunks :: "env \<Rightarrow> string \<Rightarrow> string \<Rightarrow> nat list \<Rightarrow> st \<Rightarrow> unit res" where
  "send_chunks env to reply [] s = (Inr (), s)"
| "send_chunks env to reply (i # rest) s =
     (case send_message env to (chunk_at reply i) s of
        (Inl e, s1) \<Rightarrow> (Inl e, s1)
      | (Inr u, s1) \<Rightarrow> send_chunks env to reply rest s1)"

definition cloud_relay_reply :: "env \<Rightarrow> string \<Rightarrow> string \<Rightarrow> st \<Rightarrow> unit res" where
  "cloud_relay_reply env to reply s =
     (if length reply > 1600
      then send_chunks env to reply (py_range 0 (length reply) 1500) s
      else send_message env to reply s)"

text \<open>
  Modelled from the spec: \<^verbatim>\<open>check_and_send_image_generation\<close> of app.handlers, as the
  Cloud handler calls it: it invokes the image service with the prompt and returns the
  reference of the image, or nothing; a failure of the service is raised.
\<close>

definition cloud_image_generation :: "env \<Rightarrow> string \<Rightarrow> st \<Rightarrow> (string option) res" where
  "cloud_image_generation env img_prompt s =
     (text_to_image env img_prompt, emit [ImageGeneration img_prompt] s)"

text \<open>
  Lines 146 to 162. Whatever is raised inside the \<^verbatim>\<open>try\<close> is answered with the
  apology; the send of the apology is outside it.
\<close>

definition handle_image :: "env \<Rightarrow> string \<Rightarrow> string \<Rightarrow> st \<Rightarrow> unit res" where
  "handle_image env to img_prompt s =
     (case cloud_image_generation env img_prompt s of
        (Inl e, s1) \<Rightarrow> send_message env to image_apology s1
      | (Inr None, s1) \<Rightarrow> (Inr (), s1)
      | (Inr (Some image_url), s1) \<Rightarrow>
          if image_url = [] then (Inr (), s1)
          else (case send_image env to image_url (''Generated image: '' @ img_prompt) s1 of
                  (Inl e, s2) \<Rightarrow> send_message env to image_apology s2
                | (Inr u, s2) \<Rightarrow> (Inr (), s2)))"

text \<open>
  Lines 94 to 164, for a text message whose sender, name, id and text are strings.
\<close>

definition process_text :: "env \<Rightarrow> string \<Rightarrow> string \<Rightarrow> string \<Rightarrow> string \<Rightarrow> st \<Rightarrow> unit res" where
  "process_text env from_number sender_name message_id text s =
     (case mark_as_read env message_id s of
        (Inl e, s1) \<Rightarrow> (Inl e, s1)
      | (Inr u, s1) \<Rightarrow>
     (case ensure_system_message env sender_name s1 of
        (Inl e, s2) \<Rightarrow> (Inl e, s2)
      | (Inr u, s2) \<Rightarrow>
          (let s3 = (if length (messages (chat s2)) = 1 then ensure_user_language env text s2 else s2);
               s4 = add_message text ''user'' s3
           in case chatgpt_completion env (messages (chat s4)) of
                Inl e \<Rightarrow> (Inl e, s4)
              | Inr completion \<Rightarrow>
                  (let (reply, img_prompt) = verify_image_generation env (strip completion)
                   in case cloud_relay_reply env from_number reply s4 of
                        (Inl e, s5) \<Rightarrow> (Inl e, s5)
                      | (Inr u, s5) \<Rightarrow>
                          (let s6 = add_message reply ''assistant'' s5
                           in case img_prompt of
                                None \<Rightarrow> (Inr (), s6)
                              | Some p \<Rightarrow>
                                  if p = [] then (Inr (), s6)
                                  else handle_image env from_number p s6)))))"

text \<open>
  The handler: the status of the JSON answer and the HTTP status, and the state. The
  outer \<^verbatim>\<open>except Exception\<close> answers every exception with "error" and 500;
  \<^verbatim>\<open>request.get_json()\<close> itself may raise. The steps after the parse hand the sender,
  the name, the message id and the text to collaborators that are not among the
  sources; they are followed here for strings, which is what the Cloud API sends, and
  the handler has no result in this model (\<open>None\<close>) when one of the four is another
  JSON value.
\<close>

definition respond :: "unit res \<Rightarrow> (string \<times> nat) \<times> st" where
  "respond r = (case r of (Inl e, s) \<Rightarrow> ((''error'', 500), s) | (Inr u, s) \<Rightarrow> ((''ok'', 200), s))"

definition process_webhook :: "env \<Rightarrow> exn + json \<Rightarrow> st \<Rightarrow> ((string \<times> nat) \<times> st) option" where
  "process_webhook env request_json s =
     (case request_json of
        Inl e \<Rightarrow> Some ((''error'', 500), s)
      | Inr data \<Rightarrow>
          (case parse_whatsapp_message data of
             Inl e \<Rightarrow> Some ((''error'', 500), s)
           | Inr None \<Rightarrow> Some ((''ok'', 200), s)
           | Inr (Some md) \<Rightarrow>
               if md_type md \<noteq> JStr ''text'' then Some ((''ok'', 200), s)
               else (case (md_from md, md_name md, md_message_id md, md_text md) of
                       (JStr from_number, JStr sender_name, JStr message_id, JStr text) \<Rightarrow>
                         Some (respond (process_text env from_number sender_name message_id text s))
                     | _ \<Rightarrow> None)))"


section \<open>Turns in sequence\<close>

text \<open>
  The requests of one sender, handled one after the other on the conversation object of
  that sender; every request comes with the collaborators of its turn. A Cloud request
  outside the model (see \<open>process_webhook\<close>) ends the run without a result.
\<close>

fun twilio_turns :: "(env \<times> sender \<times> inbound) list \<Rightarrow> st \<Rightarrow> st" where
  "twilio_turns [] s = s"
| "twilio_turns ((env, sndr, new_message) # rest) s =
     twilio_turns rest (snd (reply_to_whatsapp_message env sndr new_message s))"

fun cloud_turns :: "(env \<times> (exn + json)) list \<Rightarrow> st \<Rightarrow> st option" where
  "cloud_turns [] s = Some s"
| "cloud_turns ((env, request_json) # rest) s =
     (case process_webhook env request_json s of
        None \<Rightarrow> None
      | Some (answer, s1) \<Rightarrow> cloud_turns rest s1)"

text \<open>
  The events that tell the language bootstrap and the appends of user messages apart
  from the rest, and the shape of their sequence over the life of a conversation in
  which the bootstrap happens once, right before the first user message: nothing, or
  the bootstrap on a text, the append of that text as the first user message, and
  from there on appends of user messages only.
\<close>

fun is_bootstrap :: "event \<Rightarrow> bool" where
  "is_bootstrap (EnsureUserLanguage text) = True"
| "is_bootstrap e = False"

fun is_user_append :: "event \<Rightarrow> bool" where
  "is_user_append (AddMessage r text) = (r = ''user'')"
| "is_user_append e = False"

definition first_turn_events :: "event list \<Rightarrow> event list" where
  "first_turn_events es = filter (\<lambda>e. is_bootstrap e \<or> is_user_append e) es"

fun bootstrap_once :: "event list \<Rightarrow> bool" where
  "bootstrap_once [] = True"
| "bootstrap_once (EnsureUserLanguage text # AddMessage r c # es) =
     (r = ''user'' \<and> c = text \<and> list_all is_user_append es)"
| "bootstrap_once es = False"

text \<open>A step that adds neither a bootstrap nor a user message to the events.\<close>

definition silent :: "st \<Rightarrow> st \<Rightarrow> bool" where
  "silent s s' = (\<exists>es. trace s' = trace s @ es \<and> first_turn_events es = [])"

section \<open>Example inputs\<close>

text \<open>
  A formatter for templates with plain named fields, for the examples: a field
  \<^verbatim>\<open>{name}\<close> is replaced by the value given under that name, KeyError when there is
  none, ValueError for a brace that is not part of a field.
\<close>

fun example_format :: "string option \<Rightarrow> string \<Rightarrow> (string \<times> string) list \<Rightarrow> exn + string" where
  "example_format None [] kw = Inr []"
| "example_format (Some field) [] kw = Inl ValueError"
| "example_format None (c # cs) kw =
     (if c = CHR ''{'' then example_format (Some []) cs kw
      else if c = CHR ''}'' then Inl ValueError
      else and_then (example_format None cs kw) (\<lambda>r. Inr (c # r)))"
| "example_format (Some field) (c # cs) kw =
     (if c = CHR ''}''
      then (case map_of kw field of
              None \<Rightarrow> Inl KeyError
            | Some v \<Rightarrow> and_then (example_format None cs kw) (\<lambda>r. Inr (v @ r)))
      else example_format (Some (field @ [c])) cs kw)"

text \<open>
  A conversation that holds its system message, rendered on the first of May, and
  nothing else; collaborators that answer with fixed values; and a text message as the
  Cloud API delivers it.
\<close>

definition example_sender :: sender where
  "example_sender = \<lparr>phone_number = ''whatsapp:+34600000000'', name = ''Ada''\<rparr>"

definition example_chat :: chat_manager where
  "example_chat =
     \<lparr>sender = example_sender,
      messages = [make_message ''You talk to Ada. Today is 2024-05-01.'' ''system''],
      start_system_message = Some ''You talk to Ada. Today is 2024-05-01.'',
      goodbye_message = ''Goodbye! I'll be here if you need me.'',
      language = None\<rparr>"

definition example_state :: st where
  "example_state = \<lparr>chat = example_chat, trace = [], posts = 0\<rparr>"

definition example_directive :: "string \<Rightarrow> string \<times> string option" where
  \<open>example_directive reply =
     (if reply = ''Here is your answer. [img:"a red bicycle"]''
      then (''Here is your answer.'', Some ''a red bicycle'')
      else (reply, None))\<close>

definition example_env :: "string \<Rightarrow> (nat \<Rightarrow> bool) \<Rightarrow> env" where
  "example_env completion ok =
     \<lparr>start_template = Some ''You talk to {user}. Today is {today}.'',
      today = ''2024-05-02'',
      str_format = example_format None,
      chatgpt_completion = (\<lambda>transcript. Inr completion),
      verify_image_generation = example_directive,
      check_conversation_end = (\<lambda>msg c. msg = Some ''bye''),
      language_detection = (\<lambda>text. ''english''),
      whisper_transcription = (\<lambda>ref. Inr ''hello''),
      image_content = (\<lambda>ref. Some []),
      text_to_image = (\<lambda>img_prompt. Inr (Some ''https://images.example/1.png'')),
      post_ok = ok\<rparr>"

definition text_payload :: "string \<Rightarrow> string \<Rightarrow> string \<Rightarrow> string \<Rightarrow> json" where
  "text_payload from_number sender_name message_id text =
     JObj [(''object'', JStr ''whatsapp_business_account''),
           (''entry'', JArr [JObj [(''changes'', JArr [JObj [(''value'', JObj
              [(''contacts'', JArr [JObj [(''profile'', JObj [(''name'', JStr sender_name)])]]),
               (''messages'', JArr [JObj
                  [(''from'', JStr from_number),
                   (''id'', JStr message_id),
                   (''timestamp'', JStr ''1714600000''),
                   (''type'', JStr ''text''),
                   (''text'', JObj [(''body'', JStr text)])]])])]])]])]"

text \<open>
  A voice note as the Cloud API delivers it, and a body in which the value of the
  change is \<^verbatim>\<open>null\<close>.
\<close>

definition audio_payload :: "string \<Rightarrow> string \<Rightarrow> string \<Rightarrow> string \<Rightarrow> json" where
  "audio_payload from_number sender_name message_id media_id =
     JObj [(''object'', JStr ''whatsapp_business_account''),
           (''entry'', JArr [JObj [(''changes'', JArr [JObj [(''value'', JObj
              [(''contacts'', JArr [JObj [(''profile'', JObj [(''name'', JStr sender_name)])]]),
               (''messages'', JArr [JObj
                  [(''from'', JStr from_number),
                   (''id'', JStr message_id),
                   (''timestamp'', JStr ''1714600000''),
                   (''type'', JStr ''audio''),
                   (''audio'', JObj [(''id'', JStr media_id),
                                     (''mime_type'', JStr ''audio/ogg; codecs=opus'')])]])])]])]])]"

definition null_value_payload :: json where
  "null_value_payload =
     JObj [(''object'', JStr ''whatsapp_business_account''),
           (''entry'', JArr [JObj [(''changes'', JArr [JObj [(''value'', JNull)]])]])]"


section \<open>Facts about the splitting of a reply\<close>

lemma butlast_upt0: "butlast [0..<n] = [0..<n - 1]"
  by (cases n) simp_all

lemma unsuffix: "take (length (c @ ''...'') - 3) (c @ ''...'') = c"
  by simp

lemma ceil_step:
  assumes "0 < step" "i < stop"
  shows "(stop - i + step - 1) div step = Suc ((stop - (i + step) + step - 1) div step)"
proof -
  obtain p where p: "step = Suc p" using assms(1) by (cases step) auto
  obtain d where d: "stop = i + Suc d" using assms(2) by (metis less_imp_Suc_add add_Suc_right)
  have l: "stop - i + step - 1 = d + step" using p d by simp
  show ?thesis
  proof (cases "step \<le> Suc d")
    case True
    then obtain e where e: "Suc d = step + e" by (metis le_iff_add)
    have r: "stop - (i + step) + step - 1 = e + p" using d e p by simp
    have "d + step = (e + p) + step" using e p by simp
    then have "(d + step) div step = Suc ((e + p) div step)"
      using assms(1) by (simp only: div_add_self2)
    with l r show ?thesis by simp
  next
    case False
    then have r: "stop - (i + step) + step - 1 = p" using d p by simp
    have "d < step" using False by simp
    moreover have "(d + step) div step = d div step + 1"
      using assms(1) by (intro div_add_self2) simp
    ultimately have "(d + step) div step = 1" by simp
    moreover have "p div step = 0" using p by simp
    ultimately show ?thesis using l r by simp
  qed
qed

lemma py_range_map:
  "0 < step \<Longrightarrow> py_range i stop step = map (\<lambda>k. i + k * step) [0..<(stop - i + step - 1) div step]"
proof (induction i stop step rule: py_range.induct)
  case (1 i stop step)
  show ?case
  proof (cases "i < stop")
    case False
    with 1(2) have "(stop - i + step - 1) div step = 0" by simp
    with False show ?thesis by (subst py_range.simps) simp
  next
    case True
    let ?n = "(stop - (i + step) + step - 1) div step"
    have ih: "py_range (i + step) stop step = map (\<lambda>k. i + step + k * step) [0..<?n]"
      using 1 True by simp
    have n: "(stop - i + step - 1) div step = Suc ?n"
      using ceil_step [OF 1(2) True] .
    have "map (\<lambda>k. i + k * step) [0..<Suc ?n] = i # map (\<lambda>k. i + step + k * step) [0..<?n]"
      by (simp add: upt_conv_Cons map_Suc_upt [symmetric] del: upt_Suc)
    with ih n True 1(2) show ?thesis by (subst py_range.simps) simp
  qed
qed

lemma concat_take_drop:
  "concat (map (\<lambda>k. take m (drop (k * m) xs)) [0..<j]) = take (j * m) xs"
proof (induction j)
  case 0 show ?case by simp
next
  case (Suc j)
  have "take (j * m) xs @ take m (drop (j * m) xs) = take (j * m + m) xs"
    by (simp add: take_add)
  with Suc show ?case by (simp add: add.commute)
qed

lemma reply_chunks_long:
  assumes "1600 < length reply"
  shows "reply_chunks reply = map (\<lambda>k. chunk_at reply (k * 1500)) [0..<(length reply + 1499) div 1500]"
proof -
  have "py_range 0 (length reply) 1500 = map (\<lambda>k. 0 + k * 1500) [0..<(length reply - 0 + 1500 - 1) div 1500]"
    by (rule py_range_map) simp
  then have "py_range 0 (length reply) 1500 = map (\<lambda>k. k * 1500) [0..<(length reply + 1499) div 1500]"
    by (simp add: add.commute)
  then show ?thesis using assms by (simp add: reply_chunks_def comp_def)
qed

lemma chunk_inner:
  assumes "n = (length reply + 1499) div 1500" "Suc k < n"
  shows "chunk_at reply (k * 1500) = take 1500 (drop (k * 1500) reply) @ ''...''"
proof -
  have "k * 1500 + 1500 < length reply" using assms by arith
  then show ?thesis by (simp add: chunk_at_def)
qed

lemma chunk_final:
  assumes "n = (length reply + 1499) div 1500" "0 < n"
  shows "chunk_at reply ((n - 1) * 1500) = drop ((n - 1) * 1500) reply"
proof -
  have "\<not> (n - 1) * 1500 + 1500 < length reply" "length reply - (n - 1) * 1500 \<le> 1500"
    using assms by arith+
  then show ?thesis by (simp add: chunk_at_def)
qed

lemma reply_chunks_nth:
  assumes "Suc k < length (reply_chunks reply)"
  shows "reply_chunks reply ! k = take 1500 (drop (k * 1500) reply) @ ''...''"
proof (cases "1600 < length reply")
  case False
  with assms show ?thesis by (simp add: reply_chunks_def)
next
  case True
  let ?n = "(length reply + 1499) div 1500"
  have len: "length (reply_chunks reply) = ?n" by (simp add: reply_chunks_long [OF True])
  with assms have k: "Suc k < ?n" by simp
  then have "reply_chunks reply ! k = chunk_at reply (k * 1500)"
    by (simp add: reply_chunks_long [OF True])
  with chunk_inner [OF refl k] show ?thesis by simp
qed

lemma reply_chunks_last:
  "last (reply_chunks reply) = drop ((length (reply_chunks reply) - 1) * 1500) reply"
proof (cases "1600 < length reply")
  case False
  then show ?thesis by (simp add: reply_chunks_def)
next
  case True
  let ?n = "(length reply + 1499) div 1500"
  have n: "0 < ?n" using True by arith
  have len: "length (reply_chunks reply) = ?n" by (simp add: reply_chunks_long [OF True])
  have "last (reply_chunks reply) = chunk_at reply ((?n - 1) * 1500)"
    using n by (simp add: reply_chunks_long [OF True] last_map last_upt)
  with chunk_final [OF refl n] len show ?thesis by simp
qed

lemma rejoin_reply_chunks: "rejoin (reply_chunks reply) = reply"
proof (cases "1600 < length reply")
  case False
  then show ?thesis by (simp add: reply_chunks_def rejoin_def)
next
  case True
  let ?n = "(length reply + 1499) div 1500"
  have n: "0 < ?n" using True by arith
  have len: "length (reply_chunks reply) = ?n" by (simp add: reply_chunks_long [OF True])
  have "butlast (reply_chunks reply) = map (\<lambda>k. chunk_at reply (k * 1500)) [0..<?n - 1]"
    by (simp add: reply_chunks_long [OF True] map_butlast [symmetric] butlast_upt0)
  also have "\<dots> = map (\<lambda>k. take 1500 (drop (k * 1500) reply) @ ''...'') [0..<?n - 1]"
    by (rule map_cong [OF refl]) (simp add: chunk_inner [OF refl])
  finally have "map (\<lambda>c. take (length c - 3) c) (butlast (reply_chunks reply))
      = map (\<lambda>k. take (length (take 1500 (drop (k * 1500) reply) @ ''...'') - 3)
                     (take 1500 (drop (k * 1500) reply) @ ''...'')) [0..<?n - 1]"
    by (simp only: map_map comp_def)
  also have "\<dots> = map (\<lambda>k. take 1500 (drop (k * 1500) reply)) [0..<?n - 1]"
    by (rule map_cong [OF refl]) (rule unsuffix)
  finally have "concat (map (\<lambda>c. take (length c - 3) c) (butlast (reply_chunks reply)))
      = concat (map (\<lambda>k. take 1500 (drop (k * 1500) reply)) [0..<?n - 1])"
    by simp
  also have "\<dots> = take ((?n - 1) * 1500) reply" by (rule concat_take_drop)
  finally show ?thesis
    using reply_chunks_last [of reply] len by (simp add: rejoin_def)
qed


subsection \<open>The sends of the relay step when the channel accepts every request\<close>

lemma request_simps:
  "chat (request es s) = chat s" "trace (request es s) = trace s @ es"
  "posts (request es s) = Suc (posts s)"
  by (simp_all add: request_def)

lemma emit_simps:
  "chat (emit es s) = chat s" "trace (emit es s) = trace s @ es" "posts (emit es s) = posts s"
  by (simp_all add: emit_def)

lemma send_reply_ok:
  assumes "post_ok env (posts s)"
  shows "chat (send_reply env text s) = chat s"
    and "trace (send_reply env text s) = trace s @ [SendText (phone_number (sender (chat s))) text]"
    and "posts (send_reply env text s) = Suc (posts s)"
  using assms by (simp_all add: send_reply_def twilio_send_message_def request_simps)

lemma fold_send_reply_ok:
  assumes "\<forall>n. post_ok env n"
  shows "chat (fold (\<lambda>i. send_reply env (f i)) ixs s) = chat s
       \<and> trace (fold (\<lambda>i. send_reply env (f i)) ixs s)
           = trace s @ map (\<lambda>i. SendText (phone_number (sender (chat s))) (f i)) ixs"
proof (induction ixs arbitrary: s)
  case Nil
  show ?case by simp
next
  case (Cons i ixs)
  have ok: "post_ok env (posts s)" using assms by simp
  show ?case
    using Cons [of "send_reply env (f i) s"] by (simp add: send_reply_ok [OF ok])
qed

lemma relay_reply_ok:
  assumes "\<forall>n. post_ok env n"
  shows "trace (relay_reply env reply s)
           = trace s @ map (SendText (phone_number (sender (chat s)))) (reply_chunks reply)"
    and "chat (relay_reply env reply s) = chat s"
  using assms fold_send_reply_ok [OF assms, of "chunk_at reply" _ s]
  by (simp_all add: relay_reply_def reply_chunks_def send_reply_ok comp_def)

lemma send_chunks_ok:
  assumes "\<forall>n. post_ok env n"
  shows "\<exists>s'. send_chunks env to reply ixs s = (Inr (), s') \<and> chat s' = chat s
           \<and> trace s' = trace s @ map (\<lambda>i. SendText to (chunk_at reply i)) ixs"
proof (induction ixs arbitrary: s)
  case Nil
  show ?case by simp
next
  case (Cons i ixs)
  have ok: "post_ok env (posts s)" using assms by simp
  from Cons [of "request [SendText to (chunk_at reply i)] s"]
  show ?case using ok by (auto simp: send_message_def request_simps)
qed

lemma cloud_relay_reply_ok:
  assumes "\<forall>n. post_ok env n"
  shows "\<exists>s'. cloud_relay_reply env to reply s = (Inr (), s') \<and> chat s' = chat s
           \<and> trace s' = trace s @ map (SendText to) (reply_chunks reply)"
proof (cases "1600 < length reply")
  case True
  with send_chunks_ok [OF assms, of to reply "py_range 0 (length reply) 1500" s]
  show ?thesis by (simp add: cloud_relay_reply_def reply_chunks_def comp_def)
next
  case False
  have ok: "post_ok env (posts s)" using assms by simp
  with False show ?thesis
    by (simp add: cloud_relay_reply_def reply_chunks_def send_message_def request_simps)
qed


text \<open>
  C1, as amended. A reply of length \<open>L\<close> above 1600 goes out in exactly \<open>ceil(L/1500)\<close>
  chunks, written \<open>(L + 1499) div 1500\<close>; a reply of length at most 1600 goes out as one
  message, the reply itself. In both cases every chunk but the last is 1500 characters
  of the reply followed by "...", the last chunk is the rest of the reply, the chunks
  with the suffixes removed join to the reply, and both handlers send the chunks in
  this order when the channel accepts every request.
\<close>

theorem reply_chunks_split:
  "(1600 < length reply \<longrightarrow>
      length (reply_chunks reply) = (length reply + 1499) div 1500
      \<and> (length (reply_chunks reply) - 1) * 1500 < length reply
      \<and> length reply \<le> length (reply_chunks reply) * 1500)
   \<and> (length reply \<le> 1600 \<longrightarrow> reply_chunks reply = [reply])
   \<and> (\<forall>k. Suc k < length (reply_chunks reply) \<longrightarrow>
          reply_chunks reply ! k = take 1500 (drop (k * 1500) reply) @ ''...'')
   \<and> last (reply_chunks reply) = drop ((length (reply_chunks reply) - 1) * 1500) reply
   \<and> rejoin (reply_chunks reply) = reply
   \<and> ((\<forall>n. post_ok env n) \<longrightarrow>
        trace (relay_reply env reply s)
          = trace s @ map (SendText (phone_number (sender (chat s)))) (reply_chunks reply)
        \<and> (\<exists>s'. cloud_relay_reply env to reply s = (Inr (), s')
                \<and> trace s' = trace s @ map (SendText to) (reply_chunks reply)))"
proof -
  have a: "1600 < length reply \<longrightarrow>
      length (reply_chunks reply) = (length reply + 1499) div 1500
      \<and> (length (reply_chunks reply) - 1) * 1500 < length reply
      \<and> length reply \<le> length (reply_chunks reply) * 1500"
  proof
    assume long: "1600 < length reply"
    have len: "length (reply_chunks reply) = (length reply + 1499) div 1500"
      by (simp add: reply_chunks_long [OF long])
    have "((length reply + 1499) div 1500 - 1) * 1500 < length reply"
      "length reply \<le> (length reply + 1499) div 1500 * 1500"
      using long by arith+
    with len show "length (reply_chunks reply) = (length reply + 1499) div 1500
      \<and> (length (reply_chunks reply) - 1) * 1500 < length reply
      \<and> length reply \<le> length (reply_chunks reply) * 1500"
      by simp
  qed
  have b: "length reply \<le> 1600 \<longrightarrow> reply_chunks reply = [reply]"
    by (simp add: reply_chunks_def)
  have c: "\<forall>k. Suc k < length (reply_chunks reply) \<longrightarrow>
          reply_chunks reply ! k = take 1500 (drop (k * 1500) reply) @ ''...''"
    using reply_chunks_nth by blast
  have d: "(\<forall>n. post_ok env n) \<longrightarrow>
        trace (relay_reply env reply s)
          = trace s @ map (SendText (phone_number (sender (chat s)))) (reply_chunks reply)
        \<and> (\<exists>s'. cloud_relay_reply env to reply s = (Inr (), s')
                \<and> trace s' = trace s @ map (SendText to) (reply_chunks reply))"
    using relay_reply_ok(1) cloud_relay_reply_ok by blast
  from a b c d reply_chunks_last rejoin_reply_chunks show ?thesis by blast
qed

theorem reply_chunks_split_witness:
  "length (reply_chunks (replicate 1601 (CHR ''a''))) = 2
   \<and> reply_chunks ''Hello!'' = [''Hello!'']
   \<and> reply_chunks (replicate 1601 (CHR ''a'')) ! 0 = replicate 1500 (CHR ''a'') @ ''...''
   \<and> last (reply_chunks (replicate 1601 (CHR ''a''))) = replicate 101 (CHR ''a'')
   \<and> rejoin (reply_chunks (replicate 1601 (CHR ''a''))) = replicate 1601 (CHR ''a'')
   \<and> trace (relay_reply (example_env [] (\<lambda>n. True)) (replicate 1601 (CHR ''a'')) example_state)
        = map (SendText ''whatsapp:+34600000000'') (reply_chunks (replicate 1601 (CHR ''a'')))"
proof -
  note t = reply_chunks_split [of "replicate 1601 (CHR ''a'')" "example_env [] (\<lambda>n. True)"
      example_state "''whatsapp:+34600000000''"]
  have len: "length (reply_chunks (replicate 1601 (CHR ''a''))) = 2"
    using t by simp
  have one: "reply_chunks ''Hello!'' = [''Hello!'']"
    using reply_chunks_split [of "''Hello!''" "example_env [] (\<lambda>n. True)" example_state "[]"]
    by simp
  have first: "reply_chunks (replicate 1601 (CHR ''a'')) ! 0 = replicate 1500 (CHR ''a'') @ ''...''"
    using t len by simp
  have final: "last (reply_chunks (replicate 1601 (CHR ''a''))) = replicate 101 (CHR ''a'')"
    using t len by simp
  have sends: "trace (relay_reply (example_env [] (\<lambda>n. True)) (replicate 1601 (CHR ''a'')) example_state)
        = map (SendText ''whatsapp:+34600000000'') (reply_chunks (replicate 1601 (CHR ''a'')))"
    using t by (simp add: example_env_def example_state_def example_chat_def example_sender_def)
  from len one first final sends t show ?thesis by simp
qed

text \<open>
  The claim as it stands fails for a reply of 1501 characters: \<open>ceil(1501/1500)\<close> is 2,
  and the relay step sends one message, the whole reply.
\<close>

theorem reply_chunks_count_counterexample:
  "(length (replicate 1501 (CHR ''a'')) + 1499) div 1500 = 2
   \<and> reply_chunks (replicate 1501 (CHR ''a'')) = [replicate 1501 (CHR ''a'')]
   \<and> trace (relay_reply (example_env [] (\<lambda>n. True)) (replicate 1501 (CHR ''a'')) example_state)
        = [SendText ''whatsapp:+34600000000'' (replicate 1501 (CHR ''a''))]"
  by (simp add: reply_chunks_def relay_reply_def send_reply_def twilio_send_message_def
      request_def example_env_def example_state_def example_chat_def example_sender_def)


section \<open>Facts about the two handlers\<close>

subsection \<open>Running the model on the examples\<close>

lemmas example_defs = example_env_def example_state_def example_chat_def example_sender_def
  example_directive_def

lemmas step_defs = request_def emit_def make_message_def add_message_def save_def
  ensure_user_language_def Let_def and_then_def strip_def py_isspace_def

lemmas cloud_defs = process_text_def mark_as_read_def ensure_system_message_def
  cloud_relay_reply_def send_message_def handle_image_def cloud_image_generation_def
  send_image_def respond_def

lemmas twilio_defs = reply_to_whatsapp_message_def set_system_message_def
  verify_and_process_media_def message_empty_or_goodbye_def check_message_empty_def
  generate_and_relay_def relay_reply_def send_reply_def twilio_send_message_def
  check_and_send_image_generation_def

lemma parse_text_payload:
  "parse_whatsapp_message (text_payload f n i b)
     = Inr (Some \<lparr>md_from = JStr f, md_name = JStr n, md_message_id = JStr i,
                  md_timestamp = JStr ''1714600000'', md_type = JStr ''text'',
                  md_text = JStr b, md_image = JNull, md_audio = JNull\<rparr>)"
  by (simp add: parse_whatsapp_message_def parse_body_def text_payload_def and_then_def
      getitem_def getitem0_def contains_def get_def lookup_def)

lemma process_webhook_text:
  "process_webhook env (Inr (text_payload f n i b)) s
     = Some (respond (process_text env f n i b s))"
  by (simp add: process_webhook_def parse_text_payload)

lemma example_render:
  "str_format (example_env completion ok) ''You talk to {user}. Today is {today}.''
       [(''user'', ''Ada''), (''today'', ''2024-05-02'')]
     = Inr ''You talk to Ada. Today is 2024-05-02.''"
  by (simp add: example_env_def and_then_def)

subsection \<open>The system message at the start of a turn\<close>

lemma set_system_message_renders:
  assumes "start_template env = Some template" "template \<noteq> []"
    and "str_format env template [(''user'', name sndr), (''today'', today env)] = Inr text"
    and "messages (chat s) \<noteq> []"
  shows "set_system_message env sndr s
     = (Inr (), s\<lparr>chat := (chat s)\<lparr>start_system_message := Some text,
                       messages := (messages (chat s))[0 := make_message text ''system'']\<rparr>\<rparr>)"
  using assms by (simp add: set_system_message_def Let_def)

lemma ensure_system_message_renders:
  assumes "start_template env = Some template" "template \<noteq> []"
    and "str_format env template [(''user'', nm), (''today'', today env)] = Inr text"
  shows "ensure_system_message env nm s
     = (Inr (), s\<lparr>chat := (chat s)\<lparr>start_system_message := Some text,
                       messages := (if messages (chat s) = [] \<or> role (hd (messages (chat s))) \<noteq> ''system''
                                    then make_message text ''system'' # messages (chat s)
                                    else messages (chat s))\<rparr>\<rparr>)"
  using assms by (simp add: ensure_system_message_def Let_def)

text \<open>
  C2. The claim: on every turn with a template, index 0 of the transcript is written
  over with the system prompt rendered from the date of the day and the name of the
  sender. On the second of May a text message arrives for a conversation whose system
  message was rendered on the first. The Cloud handler renders the prompt with the new
  date and keeps it as the start system message of the conversation, and writes
  nothing to the transcript, which starts with a system message: after its first step
  and after the whole turn index 0 still holds the message of the day before. The
  Twilio handler at the same turn writes the new rendering over index 0, the length of
  the transcript unchanged.
\<close>

theorem cloud_system_message_stale:
  "str_format (example_env ''Hi Ada!'' (\<lambda>n. True)) ''You talk to {user}. Today is {today}.''
       [(''user'', ''Ada''), (''today'', ''2024-05-02'')]
     = Inr ''You talk to Ada. Today is 2024-05-02.''
   \<and> (\<lambda>r. (fst r, start_system_message (chat (snd r)), messages (chat (snd r))))
       (ensure_system_message (example_env ''Hi Ada!'' (\<lambda>n. True)) ''Ada'' example_state)
     = (Inr (), Some ''You talk to Ada. Today is 2024-05-02.'',
        [\<lparr>role = ''system'', content = ''You talk to Ada. Today is 2024-05-01.''\<rparr>])
   \<and> map_option (\<lambda>r. (fst r, messages (chat (snd r)) ! 0))
       (process_webhook (example_env ''Hi Ada!'' (\<lambda>n. True))
          (Inr (text_payload ''34600000000'' ''Ada'' ''wamid.1'' ''hello'')) example_state)
     = Some ((''ok'', 200), \<lparr>role = ''system'', content = ''You talk to Ada. Today is 2024-05-01.''\<rparr>)
   \<and> (\<lambda>r. (fst r, messages (chat (snd r))))
       (set_system_message (example_env ''Hi Ada!'' (\<lambda>n. True)) example_sender example_state)
     = (Inr (), [\<lparr>role = ''system'', content = ''You talk to Ada. Today is 2024-05-02.''\<rparr>])
   \<and> (\<lambda>r. (fst r, messages (chat (snd r)) ! 0))
       (reply_to_whatsapp_message (example_env ''Hi Ada!'' (\<lambda>n. True)) example_sender
          \<lparr>body = Some ''hello'', media = None\<rparr> example_state)
     = (Inr ''ok'', \<lparr>role = ''system'', content = ''You talk to Ada. Today is 2024-05-02.''\<rparr>)"
  by (simp add: process_webhook_text cloud_defs twilio_defs step_defs example_defs)

subsection \<open>A send that fails in the Cloud handler\<close>

lemma long_reply_plain:
  "example_directive (replicate 1601 (CHR ''a'')) = (replicate 1601 (CHR ''a''), None)"
proof -
  have "length (replicate 1601 (CHR ''a'')) \<noteq> length ''Here is your answer. [img:\"a red bicycle\"]''"
    by simp
  then have "replicate 1601 (CHR ''a'') \<noteq> ''Here is your answer. [img:\"a red bicycle\"]''"
    by (metis (no_types))
  then show ?thesis by (simp add: example_directive_def)
qed

text \<open>
  C6. The claim: a send that fails is caught at the relay step, a fixed apology goes out
  in place of the failed text, nothing reaches the caller and the turn goes on to the
  append of the assistant message. The Cloud handler at a text message "hello", the
  completion "Hi Ada!", and a channel that accepts the read receipt and refuses the
  next request: the answer is "error" with status 500, no apology is sent, and the
  transcript ends with the user message. The Twilio handler at the same turn, the
  channel refusing its first request: the apology is sent, the assistant message is
  appended and the conversation is saved.
\<close>

theorem cloud_send_failure_aborts_turn:
  "map_option (\<lambda>r. (fst r, trace (snd r), messages (chat (snd r))))
     (process_webhook (example_env ''Hi Ada!'' (\<lambda>n. n \<noteq> 1))
        (Inr (text_payload ''34600000000'' ''Ada'' ''wamid.1'' ''hello'')) example_state)
   = Some ((''error'', 500),
           [MarkAsRead ''wamid.1'', EnsureUserLanguage ''hello'', AddMessage ''user'' ''hello'',
            SendFailed ''34600000000'' ''Hi Ada!''],
           [\<lparr>role = ''system'', content = ''You talk to Ada. Today is 2024-05-01.''\<rparr>,
            \<lparr>role = ''user'', content = ''hello''\<rparr>])
   \<and> (\<lambda>r. (fst r, trace (snd r)))
       (reply_to_whatsapp_message (example_env ''Hi Ada!'' (\<lambda>n. n \<noteq> 0)) example_sender
          \<lparr>body = Some ''hello'', media = None\<rparr> example_state)
     = (Inr ''ok'',
        [EnsureUserLanguage ''hello'', AddMessage ''user'' ''hello'',
         SendFailed ''whatsapp:+34600000000'' ''Hi Ada!'',
         SendText ''whatsapp:+34600000000'' didnt_understand,
         AddMessage ''assistant'' ''Hi Ada!'',
         Save [\<lparr>role = ''system'', content = ''You talk to Ada. Today is 2024-05-02.''\<rparr>,
               \<lparr>role = ''user'', content = ''hello''\<rparr>,
               \<lparr>role = ''assistant'', content = ''Hi Ada!''\<rparr>]])"
  by (simp add: process_webhook_text cloud_defs twilio_defs step_defs example_defs)

text \<open>
  C5. The claim: every turn that reaches the relay step appends exactly one assistant
  message, after the sends, also when the send of a chunk failed. The Cloud handler at
  a reply of 1601 characters, which goes out in two chunks, the channel refusing the
  second: the first chunk is sent, the second fails, the answer is "error" with status
  500 and no message of the role assistant is in the transcript.
\<close>

theorem cloud_chunk_failure_drops_assistant:
  "map_option (\<lambda>r. (fst r, trace (snd r), map role (messages (chat (snd r)))))
     (process_webhook (example_env (replicate 1601 (CHR ''a'')) (\<lambda>n. n \<noteq> 2))
        (Inr (text_payload ''34600000000'' ''Ada'' ''wamid.1'' ''hello'')) example_state)
   = Some ((''error'', 500),
           [MarkAsRead ''wamid.1'', EnsureUserLanguage ''hello'', AddMessage ''user'' ''hello'',
            SendText ''34600000000'' (replicate 1500 (CHR ''a'') @ ''...''),
            SendFailed ''34600000000'' (replicate 101 (CHR ''a''))],
           [''system'', ''user''])"
  by (simp add: process_webhook_text cloud_defs step_defs example_env_def example_state_def
      example_chat_def example_sender_def long_reply_plain py_range.simps chunk_at_def)

subsection \<open>The directive of a reply\<close>

text \<open>
  C7. The claim: when the reply carries an image directive, a system message with the
  content \<^verbatim>\<open>[img:"<prompt>"]\<close> is appended after the assistant message and before the
  image service is invoked. The Cloud handler at the completion
  \<^verbatim>\<open>Here is your answer. [img:"a red bicycle"]\<close>: the image service is invoked right
  after the append of the assistant message, and the transcript ends with the
  assistant message. The Twilio handler at the same turn appends the system message
  before it invokes the image service.
\<close>

theorem cloud_directive_not_recorded:
  "map_option (\<lambda>r. (fst r, trace (snd r), messages (chat (snd r))))
     (process_webhook (example_env ''Here is your answer. [img:\"a red bicycle\"]'' (\<lambda>n. True))
        (Inr (text_payload ''34600000000'' ''Ada'' ''wamid.1'' ''hello'')) example_state)
   = Some ((''ok'', 200),
           [MarkAsRead ''wamid.1'', EnsureUserLanguage ''hello'', AddMessage ''user'' ''hello'',
            SendText ''34600000000'' ''Here is your answer.'',
            AddMessage ''assistant'' ''Here is your answer.'',
            ImageGeneration ''a red bicycle'',
            SendImage ''34600000000'' ''https://images.example/1.png''
              ''Generated image: a red bicycle''],
           [\<lparr>role = ''system'', content = ''You talk to Ada. Today is 2024-05-01.''\<rparr>,
            \<lparr>role = ''user'', content = ''hello''\<rparr>,
            \<lparr>role = ''assistant'', content = ''Here is your answer.''\<rparr>])
   \<and> (\<lambda>r. (fst r, trace (snd r)))
       (reply_to_whatsapp_message
          (example_env ''Here is your answer. [img:\"a red bicycle\"]'' (\<lambda>n. True)) example_sender
          \<lparr>body = Some ''hello'', media = None\<rparr> example_state)
     = (Inr ''ok'',
        [EnsureUserLanguage ''hello'', AddMessage ''user'' ''hello'',
         SendText ''whatsapp:+34600000000'' ''Here is your answer.'',
         AddMessage ''assistant'' ''Here is your answer.'',
         AddMessage ''system'' (img_marker ''a red bicycle''),
         ImageGeneration ''a red bicycle'',
         SendImage ''whatsapp:+34600000000'' ''https://images.example/1.png'' [],
         Save [\<lparr>role = ''system'', content = ''You talk to Ada. Today is 2024-05-02.''\<rparr>,
               \<lparr>role = ''user'', content = ''hello''\<rparr>,
               \<lparr>role = ''assistant'', content = ''Here is your answer.''\<rparr>,
               \<lparr>role = ''system'', content = img_marker ''a red bicycle''\<rparr>]])"
  by (simp add: process_webhook_text cloud_defs twilio_defs step_defs example_defs)


subsection \<open>Steps that add neither a bootstrap nor a user message\<close>

lemma fte_append [simp]: "first_turn_events (xs @ ys) = first_turn_events xs @ first_turn_events ys"
  by (simp add: first_turn_events_def)

lemma fte_simps [simp]:
  "first_turn_events [] = []"
  "first_turn_events (SendText a b # es) = first_turn_events es"
  "first_turn_events (SendFailed a b # es) = first_turn_events es"
  "first_turn_events (SendImage a b c # es) = first_turn_events es"
  "first_turn_events (SendImageFailed a b # es) = first_turn_events es"
  "first_turn_events (MarkAsRead a # es) = first_turn_events es"
  "first_turn_events (MarkAsReadFailed a # es) = first_turn_events es"
  "first_turn_events (Transcription a # es) = first_turn_events es"
  "first_turn_events (ImageGeneration a # es) = first_turn_events es"
  "first_turn_events (Save ms # es) = first_turn_events es"
  "first_turn_events (EnsureUserLanguage a # es) = EnsureUserLanguage a # first_turn_events es"
  "first_turn_events (AddMessage r c # es)
     = (if r = ''user'' then AddMessage r c # first_turn_events es else first_turn_events es)"
  by (simp_all add: first_turn_events_def)

lemma silent_refl [simp]: "silent s s"
  by (simp add: silent_def)

lemma silent_trans: "silent a b \<Longrightarrow> silent b c \<Longrightarrow> silent a c"
  by (auto simp: silent_def)

lemma silent_emit: "first_turn_events es = [] \<Longrightarrow> silent s (emit es s)"
  by (simp add: silent_def emit_def)

lemma silent_request: "first_turn_events es = [] \<Longrightarrow> silent s (request es s)"
  by (simp add: silent_def request_def)

lemma silent_fte: "silent s s' \<Longrightarrow> first_turn_events (trace s') = first_turn_events (trace s)"
  by (auto simp: silent_def)

lemma twilio_send_message_chat [simp]: "chat (twilio_send_message env b to f s) = chat s"
  by (simp add: twilio_send_message_def request_def split: option.splits)

lemma twilio_send_message_silent: "silent s (twilio_send_message env b to f s)"
  by (simp add: twilio_send_message_def silent_request split: option.splits)

lemma send_reply_chat [simp]: "chat (send_reply env text s) = chat s"
  by (simp add: send_reply_def)

lemma send_reply_silent: "silent s (send_reply env text s)"
  by (simp add: send_reply_def twilio_send_message_silent)

lemma fold_send_reply_quiet:
  "chat (fold (\<lambda>i. send_reply env (f i)) ixs s) = chat s
   \<and> silent s (fold (\<lambda>i. send_reply env (f i)) ixs s)"
proof (induction ixs arbitrary: s)
  case Nil
  show ?case by simp
next
  case (Cons i ixs)
  from Cons [of "send_reply env (f i) s"] send_reply_silent [of s env "f i"]
  show ?case by (auto intro: silent_trans)
qed

lemma relay_reply_chat [simp]: "chat (relay_reply env reply s) = chat s"
  by (simp add: relay_reply_def fold_send_reply_quiet)

lemma relay_reply_silent: "silent s (relay_reply env reply s)"
  by (simp add: relay_reply_def fold_send_reply_quiet send_reply_silent)

lemma image_generation_chat [simp]: "chat (check_and_send_image_generation env p s) = chat s"
  by (simp add: check_and_send_image_generation_def Let_def request_def emit_def
      split: sum.splits option.splits)

lemma image_generation_silent: "silent s (check_and_send_image_generation env p s)"
  by (simp add: check_and_send_image_generation_def Let_def request_def emit_def silent_def
      split: sum.splits option.splits)

lemma save_chat [simp]: "chat (save s) = chat s"
  by (simp add: save_def emit_def)

lemma save_silent: "silent s (save s)"
  by (simp add: save_def silent_emit)

lemma add_message_messages [simp]:
  "messages (chat (add_message text r s)) = messages (chat s) @ [make_message text r]"
  by (simp add: add_message_def emit_def)

lemma add_message_trace [simp]:
  "trace (add_message text r s) = trace s @ [AddMessage r text]"
  by (simp add: add_message_def emit_def)

lemma add_message_silent: "r \<noteq> ''user'' \<Longrightarrow> silent s (add_message text r s)"
  by (simp add: silent_def)

lemma ensure_user_language_messages [simp]:
  "messages (chat (ensure_user_language env text s)) = messages (chat s)"
  by (simp add: ensure_user_language_def emit_def)

lemma ensure_user_language_trace [simp]:
  "trace (ensure_user_language env text s) = trace s @ [EnsureUserLanguage text]"
  by (simp add: ensure_user_language_def emit_def)

lemma silent_then:
  "silent s a \<Longrightarrow> silent s (twilio_send_message env b to f a)"
  "silent s a \<Longrightarrow> silent s (send_reply env text a)"
  "silent s a \<Longrightarrow> silent s (relay_reply env reply a)"
  "silent s a \<Longrightarrow> silent s (check_and_send_image_generation env p a)"
  "silent s a \<Longrightarrow> silent s (save a)"
  "silent s a \<Longrightarrow> r \<noteq> ''user'' \<Longrightarrow> silent s (add_message text r a)"
  by (blast intro: silent_trans twilio_send_message_silent send_reply_silent relay_reply_silent
      image_generation_silent save_silent add_message_silent)+

text \<open>The part of the Twilio handler after the termination check.\<close>

lemma generate_and_relay_tail:
  "silent s2
     (snd (case chatgpt_completion env (messages (chat s2)) of
             Inl e \<Rightarrow> (Inl e, s2)
           | Inr completion \<Rightarrow>
               (let (reply, img_prompt) = verify_image_generation env (strip completion);
                    s3 = relay_reply env reply s2;
                    s4 = add_message reply ''assistant'' s3;
                    s5 = (case img_prompt of
                            None \<Rightarrow> s4
                          | Some p \<Rightarrow>
                              if p = [] then s4
                              else check_and_send_image_generation env p
                                     (add_message (img_marker p) ''system'' s4))
                in (Inr ''ok'', save s5))))"
  by (auto simp: Let_def split: sum.splits prod.splits option.splits intro!: silent_then)

lemma generate_and_relay_events:
  "\<exists>rest. trace (snd (generate_and_relay env m s))
      = trace s @ (if length (messages (chat s)) = 1 then [EnsureUserLanguage m] else [])
          @ AddMessage ''user'' m # rest
    \<and> first_turn_events rest = []"
proof -
  let ?s1 = "if length (messages (chat s)) = 1 then ensure_user_language env m s else s"
  let ?s2 = "add_message m ''user'' ?s1"
  have t2: "trace ?s2 = trace s @ (if length (messages (chat s)) = 1 then [EnsureUserLanguage m] else [])
      @ [AddMessage ''user'' m]"
    by simp
  have "silent ?s2 (snd (generate_and_relay env m s))"
    unfolding generate_and_relay_def Let_def by (rule generate_and_relay_tail [unfolded Let_def])
  then obtain es where "trace (snd (generate_and_relay env m s)) = trace ?s2 @ es"
    "first_turn_events es = []"
    by (auto simp: silent_def)
  with t2 show ?thesis by auto
qed

lemma generate_and_relay_messages:
  "\<exists>more. messages (chat (snd (generate_and_relay env m s)))
      = messages (chat s) @ make_message m ''user'' # more"
  by (auto simp: generate_and_relay_def Let_def split: sum.splits prod.splits option.splits)

subsection \<open>What one Twilio turn adds\<close>

lemma set_system_message_trace [simp]:
  "trace (snd (set_system_message env sndr s)) = trace s"
  by (simp add: set_system_message_def Let_def split: option.splits sum.splits)

lemma set_system_message_length [simp]:
  "length (messages (chat (snd (set_system_message env sndr s)))) = length (messages (chat s))"
  by (simp add: set_system_message_def Let_def split: option.splits sum.splits)

lemma verify_and_process_media_chat [simp]:
  "chat (snd (verify_and_process_media env new_message s)) = chat s"
  by (simp add: verify_and_process_media_def emit_def
      split: option.splits prod.splits media_kind.splits sum.splits)

lemma verify_and_process_media_silent:
  "silent s (snd (verify_and_process_media env new_message s))"
  by (simp add: verify_and_process_media_def silent_emit
      split: option.splits prod.splits media_kind.splits sum.splits)

lemma message_empty_or_goodbye_chat [simp]:
  "chat (snd (message_empty_or_goodbye env msg s)) = chat s"
  by (simp add: message_empty_or_goodbye_def split: sum.splits)

lemma message_empty_or_goodbye_silent:
  "silent s (snd (message_empty_or_goodbye env msg s))"
  by (simp add: message_empty_or_goodbye_def twilio_send_message_silent split: sum.splits)

lemma message_empty_or_goodbye_passes:
  "message_empty_or_goodbye env msg s = (Inr False, s') \<Longrightarrow> s' = s"
  by (auto simp: message_empty_or_goodbye_def split: if_splits sum.splits)

lemma twilio_turn_effect:
  fixes env sndr new_message s
  defines "s' \<equiv> snd (reply_to_whatsapp_message env sndr new_message s)"
  shows "(first_turn_events (trace s') = first_turn_events (trace s)
            \<and> length (messages (chat s')) = length (messages (chat s)))
       \<or> (\<exists>m. first_turn_events (trace s') = first_turn_events (trace s)
                 @ (if length (messages (chat s)) = 1 then [EnsureUserLanguage m] else [])
                 @ [AddMessage ''user'' m]
              \<and> length (messages (chat s)) < length (messages (chat s')))"
proof -
  obtain r1 s1 where a: "set_system_message env sndr s = (r1, s1)" by (cases "set_system_message env sndr s")
  have s1: "trace s1 = trace s" "length (messages (chat s1)) = length (messages (chat s))"
    using set_system_message_trace [of env sndr s] set_system_message_length [of env sndr s] a by simp_all
  show ?thesis
  proof (cases r1)
    case (Inl e)
    with a s1 show ?thesis by (simp add: s'_def reply_to_whatsapp_message_def)
  next
    case (Inr u)
    obtain r2 s2 where b: "verify_and_process_media env new_message s1 = (r2, s2)"
      by (cases "verify_and_process_media env new_message s1")
    have s2: "chat s2 = chat s1" "silent s1 s2"
      using verify_and_process_media_chat [of env new_message s1]
        verify_and_process_media_silent [of s1 env new_message] b by simp_all
    show ?thesis
    proof (cases r2)
      case (Inl e)
      then have "s' = s2"
        using a b \<open>r1 = Inr u\<close> by (simp add: s'_def reply_to_whatsapp_message_def)
      with s1 s2 show ?thesis by (simp add: silent_fte)
    next
      case r2: (Inr msg)
      obtain r3 s3 where c: "message_empty_or_goodbye env msg s2 = (r3, s3)"
        by (cases "message_empty_or_goodbye env msg s2")
      have s3: "chat s3 = chat s2" "silent s2 s3"
        using message_empty_or_goodbye_chat [of env msg s2]
          message_empty_or_goodbye_silent [of s2 env msg] c by simp_all
      have quiet: "first_turn_events (trace s3) = first_turn_events (trace s)"
        "length (messages (chat s3)) = length (messages (chat s))"
        using s1 s2 s3 by (simp_all add: silent_fte)
      show ?thesis
      proof (cases "r3 = Inr False")
        case False
        then have "s' = s3"
          using a b c Inr r2 by (cases r3) (auto simp: s'_def reply_to_whatsapp_message_def)
        with quiet show ?thesis by simp
      next
        case True
        let ?m = "case msg of None \<Rightarrow> [] | Some m \<Rightarrow> m"
        have "s' = snd (generate_and_relay env ?m s3)"
          using a b c Inr r2 True by (simp add: s'_def reply_to_whatsapp_message_def)
        moreover obtain rest where "trace (snd (generate_and_relay env ?m s3))
            = trace s3 @ (if length (messages (chat s3)) = 1 then [EnsureUserLanguage ?m] else [])
                @ AddMessage ''user'' ?m # rest" "first_turn_events rest = []"
          using generate_and_relay_events [of env ?m s3] by blast
        moreover obtain more where "messages (chat (snd (generate_and_relay env ?m s3)))
            = messages (chat s3) @ make_message ?m ''user'' # more"
          using generate_and_relay_messages [of env ?m s3] by blast
        ultimately have "first_turn_events (trace s') = first_turn_events (trace s)
                   @ (if length (messages (chat s)) = 1 then [EnsureUserLanguage ?m] else [])
                   @ [AddMessage ''user'' ?m]
                \<and> length (messages (chat s)) < length (messages (chat s'))"
          using quiet by simp
        then show ?thesis by blast
      qed
    qed
  qed
qed

lemma bootstrap_once_snoc:
  "bootstrap_once es \<Longrightarrow> es \<noteq> [] \<Longrightarrow> bootstrap_once (es @ [AddMessage ''user'' m])"
  by (induction es rule: bootstrap_once.induct) simp_all

lemma once_step:
  assumes inv: "bootstrap_once (first_turn_events (trace s))"
      "first_turn_events (trace s) = [] \<longleftrightarrow> length (messages (chat s)) = 1"
      "1 \<le> length (messages (chat s))"
    and eff: "(first_turn_events (trace s') = first_turn_events (trace s)
            \<and> length (messages (chat s')) = length (messages (chat s)))
       \<or> (\<exists>m. first_turn_events (trace s') = first_turn_events (trace s)
                 @ (if length (messages (chat s)) = 1 then [EnsureUserLanguage m] else [])
                 @ [AddMessage ''user'' m]
              \<and> length (messages (chat s)) < length (messages (chat s')))"
  shows "bootstrap_once (first_turn_events (trace s'))
       \<and> (first_turn_events (trace s') = [] \<longleftrightarrow> length (messages (chat s')) = 1)
       \<and> 1 \<le> length (messages (chat s'))"
  using eff
proof (elim disjE exE conjE)
  assume "first_turn_events (trace s') = first_turn_events (trace s)"
    "length (messages (chat s')) = length (messages (chat s))"
  with inv show ?thesis by simp
next
  fix m
  assume t: "first_turn_events (trace s') = first_turn_events (trace s)
                 @ (if length (messages (chat s)) = 1 then [EnsureUserLanguage m] else [])
                 @ [AddMessage ''user'' m]"
    and l: "length (messages (chat s)) < length (messages (chat s'))"
  show ?thesis
  proof (cases "length (messages (chat s)) = 1")
    case True
    with inv t l show ?thesis by simp
  next
    case False
    with inv have "first_turn_events (trace s) \<noteq> []" by simp
    with inv(1) have "bootstrap_once (first_turn_events (trace s) @ [AddMessage ''user'' m])"
      by (rule bootstrap_once_snoc)
    with False inv t l show ?thesis by simp
  qed
qed

lemma twilio_turns_once:
  assumes "bootstrap_once (first_turn_events (trace s))"
      "first_turn_events (trace s) = [] \<longleftrightarrow> length (messages (chat s)) = 1"
      "1 \<le> length (messages (chat s))"
  shows "bootstrap_once (first_turn_events (trace (twilio_turns turns s)))"
  using assms
proof (induction turns arbitrary: s)
  case Nil
  then show ?case by simp
next
  case (Cons t turns)
  obtain env sndr new_message where t: "t = (env, sndr, new_message)" by (cases t)
  let ?s' = "snd (reply_to_whatsapp_message env sndr new_message s)"
  have "bootstrap_once (first_turn_events (trace ?s'))
       \<and> (first_turn_events (trace ?s') = [] \<longleftrightarrow> length (messages (chat ?s')) = 1)
       \<and> 1 \<le> length (messages (chat ?s'))"
    by (rule once_step [OF Cons.prems twilio_turn_effect])
  then show ?case using Cons.IH [of ?s'] t by simp
qed

subsection \<open>What one Cloud turn adds\<close>

lemma cloud_send_chat [simp]:
  "chat (snd (send_message env to text s)) = chat s"
  "chat (snd (send_image env to url caption s)) = chat s"
  "chat (snd (mark_as_read env i s)) = chat s"
  by (simp_all add: send_message_def send_image_def mark_as_read_def request_def)

lemma silent_then_request:
  "silent s a \<Longrightarrow> first_turn_events es = [] \<Longrightarrow> silent s (request es a)"
  "silent s a \<Longrightarrow> first_turn_events es = [] \<Longrightarrow> silent s (emit es a)"
  by (blast intro: silent_trans silent_request silent_emit)+

lemma cloud_send_silent:
  "silent s a \<Longrightarrow> silent s (snd (send_message env to text a))"
  "silent s a \<Longrightarrow> silent s (snd (send_image env to url caption a))"
  "silent s a \<Longrightarrow> silent s (snd (mark_as_read env i a))"
  by (simp_all add: send_message_def send_image_def mark_as_read_def silent_then_request)

lemma send_chunks_quiet:
  "chat (snd (send_chunks env to reply ixs s)) = chat s
   \<and> silent s (snd (send_chunks env to reply ixs s))"
proof (induction ixs arbitrary: s)
  case Nil
  show ?case by simp
next
  case (Cons i ixs)
  obtain r s1 where a: "send_message env to (chunk_at reply i) s = (r, s1)"
    by (cases "send_message env to (chunk_at reply i) s")
  have s1: "chat s1 = chat s" "silent s s1"
    using cloud_send_chat(1) [of env to "chunk_at reply i" s]
      cloud_send_silent(1) [OF silent_refl, of s env to "chunk_at reply i"] a by simp_all
  show ?case
  proof (cases r)
    case (Inl e)
    with a s1 show ?thesis by simp
  next
    case (Inr u)
    with a s1 Cons [of s1] show ?thesis by (auto intro: silent_trans)
  qed
qed

lemma cloud_relay_reply_chat [simp]: "chat (snd (cloud_relay_reply env to reply s)) = chat s"
  by (simp add: cloud_relay_reply_def send_chunks_quiet)

lemma cloud_relay_reply_silent: "silent s (snd (cloud_relay_reply env to reply s))"
  by (simp add: cloud_relay_reply_def send_chunks_quiet cloud_send_silent)

lemma handle_image_quiet:
  assumes "silent s a"
  shows "chat (snd (handle_image env to p a)) = chat a \<and> silent s (snd (handle_image env to p a))"
proof -
  let ?a1 = "emit [ImageGeneration p] a"
  have e: "chat ?a1 = chat a" "silent s ?a1"
    using assms by (simp add: emit_def, simp add: silent_then_request)
  show ?thesis
  proof (cases "text_to_image env p")
    case (Inl x)
    then show ?thesis
      using e by (simp add: handle_image_def cloud_image_generation_def cloud_send_silent)
  next
    case (Inr img)
    show ?thesis
    proof (cases img)
      case None
      with Inr e show ?thesis by (simp add: handle_image_def cloud_image_generation_def)
    next
      case (Some url)
      obtain r a2 where i: "send_image env to url (''Generated image: '' @ p) ?a1 = (r, a2)"
        by (cases "send_image env to url (''Generated image: '' @ p) ?a1")
      have "chat (snd (send_image env to url (''Generated image: '' @ p) ?a1)) = chat ?a1"
        by (rule cloud_send_chat)
      moreover have "silent s (snd (send_image env to url (''Generated image: '' @ p) ?a1))"
        by (rule cloud_send_silent(2) [OF e(2)])
      ultimately have a2: "chat a2 = chat a" "silent s a2"
        unfolding i using e(1) by simp_all
      show ?thesis
      proof (cases r)
        case (Inl x)
        with Inr Some i a2 e show ?thesis
          by (simp add: handle_image_def cloud_image_generation_def cloud_send_silent)
      next
        case (Inr u)
        with \<open>text_to_image env p = Inr img\<close> Some i a2 e show ?thesis
          by (simp add: handle_image_def cloud_image_generation_def)
      qed
    qed
  qed
qed

lemma ensure_system_message_trace [simp]:
  "trace (snd (ensure_system_message env nm s)) = trace s"
  by (simp add: ensure_system_message_def Let_def split: option.splits sum.splits)

lemma ensure_system_message_kept:
  "messages (chat s) \<noteq> [] \<Longrightarrow> role (hd (messages (chat s))) = ''system'' \<Longrightarrow>
   messages (chat (snd (ensure_system_message env nm s))) = messages (chat s)"
  by (simp add: ensure_system_message_def Let_def split: option.splits sum.splits)

lemma process_text_tail:
  "silent s4
     (snd (case c of
             Inl e \<Rightarrow> (Inl e, s4)
           | Inr completion \<Rightarrow>
               (let (reply, img_prompt) = verify_image_generation env (strip completion)
                in case cloud_relay_reply env to reply s4 of
                     (Inl e, s5) \<Rightarrow> (Inl e, s5)
                   | (Inr u, s5) \<Rightarrow>
                       (let s6 = add_message reply ''assistant'' s5
                        in case img_prompt of
                             None \<Rightarrow> (Inr (), s6)
                           | Some p \<Rightarrow>
                               if p = [] then (Inr (), s6)
                               else handle_image env to p s6))))"
proof (cases c)
  case (Inl e)
  then show ?thesis by simp
next
  case (Inr completion)
  obtain reply img_prompt where v: "verify_image_generation env (strip completion) = (reply, img_prompt)"
    by (cases "verify_image_generation env (strip completion)")
  obtain r s5 where rl: "cloud_relay_reply env to reply s4 = (r, s5)"
    by (cases "cloud_relay_reply env to reply s4")
  have s5: "silent s4 s5" using cloud_relay_reply_silent [of s4 env to reply] rl by simp
  then have s6: "silent s4 (add_message reply ''assistant'' s5)"
    by (rule silent_then) simp
  show ?thesis
    using Inr v rl s5 s6 handle_image_quiet [OF s6]
    by (auto simp: Let_def split: sum.splits option.splits)
qed

lemma process_text_tail_messages:
  "\<exists>more. messages (chat
     (snd (case c of
             Inl e \<Rightarrow> (Inl e, s4)
           | Inr completion \<Rightarrow>
               (let (reply, img_prompt) = verify_image_generation env (strip completion)
                in case cloud_relay_reply env to reply s4 of
                     (Inl e, s5) \<Rightarrow> (Inl e, s5)
                   | (Inr u, s5) \<Rightarrow>
                       (let s6 = add_message reply ''assistant'' s5
                        in case img_prompt of
                             None \<Rightarrow> (Inr (), s6)
                           | Some p \<Rightarrow>
                               if p = [] then (Inr (), s6)
                               else handle_image env to p s6))))) = messages (chat s4) @ more"
proof (cases c)
  case (Inl e)
  then show ?thesis by simp
next
  case (Inr completion)
  obtain reply img_prompt where v: "verify_image_generation env (strip completion) = (reply, img_prompt)"
    by (cases "verify_image_generation env (strip completion)")
  obtain r s5 where rl: "cloud_relay_reply env to reply s4 = (r, s5)"
    by (cases "cloud_relay_reply env to reply s4")
  have s5: "chat s5 = chat s4" using cloud_relay_reply_chat [of env to reply s4] rl by simp
  show ?thesis
    using Inr v rl s5 handle_image_quiet [OF silent_refl]
    by (auto simp: Let_def split: sum.splits option.splits)
qed

text \<open>The Cloud handler from the language check on.\<close>

lemma process_text_events:
  assumes "mark_as_read env i s = (Inr (), s1)"
    and "ensure_system_message env n s1 = (Inr (), s2)"
  shows "\<exists>rest. trace (snd (process_text env f n i b s))
      = trace s2 @ (if length (messages (chat s2)) = 1 then [EnsureUserLanguage b] else [])
          @ AddMessage ''user'' b # rest
    \<and> first_turn_events rest = []"
    and "\<exists>more. messages (chat (snd (process_text env f n i b s)))
      = messages (chat s2) @ make_message b ''user'' # more"
proof -
  define s4 where
    "s4 = add_message b ''user''
       (if length (messages (chat s2)) = 1 then ensure_user_language env b s2 else s2)"
  have t4: "trace s4 = trace s2 @ (if length (messages (chat s2)) = 1 then [EnsureUserLanguage b] else [])
      @ [AddMessage ''user'' b]"
    and m4: "messages (chat s4) = messages (chat s2) @ [make_message b ''user'']"
    by (simp_all add: s4_def)
  have run: "process_text env f n i b s
     = (case chatgpt_completion env (messages (chat s4)) of
             Inl e \<Rightarrow> (Inl e, s4)
           | Inr completion \<Rightarrow>
               (let (reply, img_prompt) = verify_image_generation env (strip completion)
                in case cloud_relay_reply env f reply s4 of
                     (Inl e, s5) \<Rightarrow> (Inl e, s5)
                   | (Inr u, s5) \<Rightarrow>
                       (let s6 = add_message reply ''assistant'' s5
                        in case img_prompt of
                             None \<Rightarrow> (Inr (), s6)
                           | Some p \<Rightarrow>
                               if p = [] then (Inr (), s6)
                               else handle_image env f p s6)))"
    unfolding process_text_def s4_def using assms by (simp only: Let_def prod.case sum.case)
  have "silent s4 (snd (process_text env f n i b s))"
    unfolding run by (rule process_text_tail)
  then obtain es where "trace (snd (process_text env f n i b s)) = trace s4 @ es"
    "first_turn_events es = []"
    by (auto simp: silent_def)
  with t4 show "\<exists>rest. trace (snd (process_text env f n i b s))
      = trace s2 @ (if length (messages (chat s2)) = 1 then [EnsureUserLanguage b] else [])
          @ AddMessage ''user'' b # rest
    \<and> first_turn_events rest = []"
    by auto
  have "\<exists>more. messages (chat (snd (process_text env f n i b s))) = messages (chat s4) @ more"
    unfolding run by (rule process_text_tail_messages)
  with m4 show "\<exists>more. messages (chat (snd (process_text env f n i b s)))
      = messages (chat s2) @ make_message b ''user'' # more"
    by auto
qed

lemma process_text_effect:
  fixes env f n i b s
  defines "s' \<equiv> snd (process_text env f n i b s)"
  assumes sys: "messages (chat s) \<noteq> []" "role (hd (messages (chat s))) = ''system''"
  shows "((first_turn_events (trace s') = first_turn_events (trace s)
            \<and> length (messages (chat s')) = length (messages (chat s)))
       \<or> (\<exists>m. first_turn_events (trace s') = first_turn_events (trace s)
                 @ (if length (messages (chat s)) = 1 then [EnsureUserLanguage m] else [])
                 @ [AddMessage ''user'' m]
              \<and> length (messages (chat s)) < length (messages (chat s'))))
       \<and> messages (chat s') \<noteq> [] \<and> role (hd (messages (chat s'))) = ''system''"
proof -
  obtain r1 s1 where a: "mark_as_read env i s = (r1, s1)" by (cases "mark_as_read env i s")
  have "chat (snd (mark_as_read env i s)) = chat s" "silent s (snd (mark_as_read env i s))"
    by (simp_all add: cloud_send_silent)
  then have s1: "chat s1 = chat s" "first_turn_events (trace s1) = first_turn_events (trace s)"
    unfolding a by (simp_all add: silent_fte)
  show ?thesis
  proof (cases r1)
    case (Inl e)
    with a s1 sys show ?thesis by (simp add: s'_def process_text_def)
  next
    case (Inr u)
    obtain r2 s2 where b: "ensure_system_message env n s1 = (r2, s2)"
      by (cases "ensure_system_message env n s1")
    have "trace (snd (ensure_system_message env n s1)) = trace s1"
      "messages (chat (snd (ensure_system_message env n s1))) = messages (chat s1)"
      using sys s1 by (simp_all add: ensure_system_message_kept)
    then have s2: "trace s2 = trace s1" "messages (chat s2) = messages (chat s)"
      unfolding b using s1 by simp_all
    show ?thesis
    proof (cases r2)
      case (Inl e)
      with a b Inr s1 s2 sys show ?thesis by (simp add: s'_def process_text_def)
    next
      case r2: (Inr u2)
      have a': "mark_as_read env i s = (Inr (), s1)" and b': "ensure_system_message env n s1 = (Inr (), s2)"
        using a b Inr r2 by simp_all
      obtain rest where t: "trace s' = trace s2 @ (if length (messages (chat s2)) = 1 then [EnsureUserLanguage b] else [])
          @ AddMessage ''user'' b # rest" "first_turn_events rest = []"
        using process_text_events(1) [OF a' b', of f b] unfolding s'_def by blast
      obtain more where m: "messages (chat s') = messages (chat s2) @ make_message b ''user'' # more"
        using process_text_events(2) [OF a' b', of f b] unfolding s'_def by blast
      have "first_turn_events (trace s') = first_turn_events (trace s)
                 @ (if length (messages (chat s)) = 1 then [EnsureUserLanguage b] else [])
                 @ [AddMessage ''user'' b]
              \<and> length (messages (chat s)) < length (messages (chat s'))"
        using t m s1 s2 by simp
      moreover have "messages (chat s') \<noteq> [] \<and> role (hd (messages (chat s'))) = ''system''"
        using m s2 sys by simp
      ultimately show ?thesis by blast
    qed
  qed
qed

lemma process_webhook_cases:
  assumes "process_webhook env request_json s = Some (answer, s')"
  shows "s' = s \<or> (\<exists>f n i b. s' = snd (process_text env f n i b s))"
  using assms
  by (auto simp: process_webhook_def respond_def
      split: sum.splits option.splits if_splits json.splits prod.splits)
    (metis snd_conv)+

lemma cloud_turn_effect:
  assumes "process_webhook env request_json s = Some (answer, s')"
    and sys: "messages (chat s) \<noteq> []" "role (hd (messages (chat s))) = ''system''"
  shows "((first_turn_events (trace s') = first_turn_events (trace s)
            \<and> length (messages (chat s')) = length (messages (chat s)))
       \<or> (\<exists>m. first_turn_events (trace s') = first_turn_events (trace s)
                 @ (if length (messages (chat s)) = 1 then [EnsureUserLanguage m] else [])
                 @ [AddMessage ''user'' m]
              \<and> length (messages (chat s)) < length (messages (chat s'))))
       \<and> messages (chat s') \<noteq> [] \<and> role (hd (messages (chat s'))) = ''system''"
proof -
  from process_webhook_cases [OF assms(1)]
  consider "s' = s" | f n i b where "s' = snd (process_text env f n i b s)" by blast
  then show ?thesis
  proof cases
    case 1
    with sys show ?thesis by simp
  next
    case 2
    then show ?thesis using process_text_effect [OF sys, of env f n i b] by simp
  qed
qed

lemma cloud_turns_once:
  assumes "cloud_turns turns s = Some s'"
    and "bootstrap_once (first_turn_events (trace s))"
      "first_turn_events (trace s) = [] \<longleftrightarrow> length (messages (chat s)) = 1"
      "1 \<le> length (messages (chat s))"
    and "messages (chat s) \<noteq> []" "role (hd (messages (chat s))) = ''system''"
  shows "bootstrap_once (first_turn_events (trace s'))"
  using assms
proof (induction turns arbitrary: s)
  case Nil
  then show ?case by simp
next
  case (Cons t turns)
  obtain env request_json where t: "t = (env, request_json)" by (cases t)
  from Cons.prems(1) t obtain answer s1 where
    w: "process_webhook env request_json s = Some (answer, s1)" and rest: "cloud_turns turns s1 = Some s'"
    by (auto split: option.splits)
  note eff = cloud_turn_effect [OF w Cons.prems(5,6)]
  have "bootstrap_once (first_turn_events (trace s1))
       \<and> (first_turn_events (trace s1) = [] \<longleftrightarrow> length (messages (chat s1)) = 1)
       \<and> 1 \<le> length (messages (chat s1))"
    by (rule once_step [OF Cons.prems(2,3,4)]) (use eff in blast)
  with eff show ?case using Cons.IH [OF rest] by blast
qed

lemma respond_snd [simp]: "snd (respond r) = snd r"
  by (simp add: respond_def split: prod.splits sum.splits)

text \<open>
  C3. In a Twilio turn that passes the termination check, and in a Cloud turn that
  reaches the language check (the Cloud handler has no termination check), the events
  from there on are: the language bootstrap on the text of the turn if and only if the
  transcript holds exactly one message at that point, then the append of the user
  message, then events among which there is no further bootstrap and no further user
  append; a Twilio turn that ends at the termination check adds neither. Over any
  sequence of turns on a conversation that starts with its system message alone, the
  bootstraps and user appends form the sequence \<open>bootstrap_once\<close> describes: nothing,
  or one bootstrap, on the text of the first user message and right before its
  append, followed by user appends only.
\<close>

theorem language_bootstrap_first_turn:
  "(set_system_message env sndr s = (Inr (), s1) \<longrightarrow>
    verify_and_process_media env new_message s1 = (Inr msg, s2) \<longrightarrow>
      (fst (message_empty_or_goodbye env msg s2) = Inr False \<longrightarrow>
         (\<exists>rest. trace (snd (reply_to_whatsapp_message env sndr new_message s))
             = trace s2
               @ (if length (messages (chat s2)) = 1
                  then [EnsureUserLanguage (case msg of None \<Rightarrow> [] | Some m \<Rightarrow> m)] else [])
               @ AddMessage ''user'' (case msg of None \<Rightarrow> [] | Some m \<Rightarrow> m) # rest
           \<and> first_turn_events rest = []))
    \<and> (fst (message_empty_or_goodbye env msg s2) \<noteq> Inr False \<longrightarrow>
         first_turn_events (trace (snd (reply_to_whatsapp_message env sndr new_message s)))
           = first_turn_events (trace s)))
   \<and> (mark_as_read env i c = (Inr (), c1) \<longrightarrow>
      ensure_system_message env n c1 = (Inr (), c2) \<longrightarrow>
      process_webhook env (Inr (text_payload f n i b)) c = Some (answer, c') \<longrightarrow>
        (\<exists>rest. trace c'
             = trace c2
               @ (if length (messages (chat c2)) = 1 then [EnsureUserLanguage b] else [])
               @ AddMessage ''user'' b # rest
           \<and> first_turn_events rest = []))
   \<and> (length (messages (chat s)) = 1 \<longrightarrow> first_turn_events (trace s) = [] \<longrightarrow>
        bootstrap_once (first_turn_events (trace (twilio_turns turns s))))
   \<and> (length (messages (chat c)) = 1 \<longrightarrow> role (hd (messages (chat c))) = ''system'' \<longrightarrow>
      first_turn_events (trace c) = [] \<longrightarrow> cloud_turns requests c = Some c'' \<longrightarrow>
        bootstrap_once (first_turn_events (trace c'')))"
proof -
  have twilio: "set_system_message env sndr s = (Inr (), s1) \<longrightarrow>
    verify_and_process_media env new_message s1 = (Inr msg, s2) \<longrightarrow>
      (fst (message_empty_or_goodbye env msg s2) = Inr False \<longrightarrow>
         (\<exists>rest. trace (snd (reply_to_whatsapp_message env sndr new_message s))
             = trace s2
               @ (if length (messages (chat s2)) = 1
                  then [EnsureUserLanguage (case msg of None \<Rightarrow> [] | Some m \<Rightarrow> m)] else [])
               @ AddMessage ''user'' (case msg of None \<Rightarrow> [] | Some m \<Rightarrow> m) # rest
           \<and> first_turn_events rest = []))
    \<and> (fst (message_empty_or_goodbye env msg s2) \<noteq> Inr False \<longrightarrow>
         first_turn_events (trace (snd (reply_to_whatsapp_message env sndr new_message s)))
           = first_turn_events (trace s))"
  proof (intro impI conjI)
    assume a: "set_system_message env sndr s = (Inr (), s1)"
      and b: "verify_and_process_media env new_message s1 = (Inr msg, s2)"
      and c: "fst (message_empty_or_goodbye env msg s2) = Inr False"
    obtain s3 where "message_empty_or_goodbye env msg s2 = (Inr False, s3)"
      using c by (cases "message_empty_or_goodbye env msg s2") auto
    then have d: "message_empty_or_goodbye env msg s2 = (Inr False, s2)"
      using message_empty_or_goodbye_passes by blast
    have "reply_to_whatsapp_message env sndr new_message s
        = generate_and_relay env (case msg of None \<Rightarrow> [] | Some m \<Rightarrow> m) s2"
      using a b d by (simp add: reply_to_whatsapp_message_def)
    then show "\<exists>rest. trace (snd (reply_to_whatsapp_message env sndr new_message s))
             = trace s2
               @ (if length (messages (chat s2)) = 1
                  then [EnsureUserLanguage (case msg of None \<Rightarrow> [] | Some m \<Rightarrow> m)] else [])
               @ AddMessage ''user'' (case msg of None \<Rightarrow> [] | Some m \<Rightarrow> m) # rest
           \<and> first_turn_events rest = []"
      using generate_and_relay_events [of env "case msg of None \<Rightarrow> [] | Some m \<Rightarrow> m" s2]
      by simp
  next
    assume a: "set_system_message env sndr s = (Inr (), s1)"
      and b: "verify_and_process_media env new_message s1 = (Inr msg, s2)"
      and c: "fst (message_empty_or_goodbye env msg s2) \<noteq> Inr False"
    obtain r3 s3 where d: "message_empty_or_goodbye env msg s2 = (r3, s3)" and r3: "r3 \<noteq> Inr False"
      using c by (cases "message_empty_or_goodbye env msg s2") auto
    have "snd (reply_to_whatsapp_message env sndr new_message s) = s3"
      using a b d r3 by (cases r3) (auto simp: reply_to_whatsapp_message_def)
    moreover have "silent s2 s3"
      using message_empty_or_goodbye_silent [of s2 env msg] d by simp
    moreover have "silent s1 s2"
      using verify_and_process_media_silent [of s1 env new_message] b by simp
    moreover have "trace s1 = trace s"
      using set_system_message_trace [of env sndr s] a by simp
    ultimately show "first_turn_events (trace (snd (reply_to_whatsapp_message env sndr new_message s)))
           = first_turn_events (trace s)"
      by (simp add: silent_fte)
  qed
  have cloud: "mark_as_read env i c = (Inr (), c1) \<longrightarrow>
      ensure_system_message env n c1 = (Inr (), c2) \<longrightarrow>
      process_webhook env (Inr (text_payload f n i b)) c = Some (answer, c') \<longrightarrow>
        (\<exists>rest. trace c'
             = trace c2
               @ (if length (messages (chat c2)) = 1 then [EnsureUserLanguage b] else [])
               @ AddMessage ''user'' b # rest
           \<and> first_turn_events rest = [])"
  proof (intro impI)
    assume a: "mark_as_read env i c = (Inr (), c1)"
      and b: "ensure_system_message env n c1 = (Inr (), c2)"
      and w: "process_webhook env (Inr (text_payload f n i b)) c = Some (answer, c')"
    from w have "c' = snd (process_text env f n i b c)"
      by (simp add: process_webhook_text) (metis respond_snd snd_conv)
    with process_text_events(1) [OF a b, of f b]
    show "\<exists>rest. trace c'
             = trace c2
               @ (if length (messages (chat c2)) = 1 then [EnsureUserLanguage b] else [])
               @ AddMessage ''user'' b # rest
           \<and> first_turn_events rest = []"
      by simp
  qed
  have twilio_run: "length (messages (chat s)) = 1 \<longrightarrow> first_turn_events (trace s) = [] \<longrightarrow>
        bootstrap_once (first_turn_events (trace (twilio_turns turns s)))"
    using twilio_turns_once [of s turns] by simp
  have cloud_run: "length (messages (chat c)) = 1 \<longrightarrow> role (hd (messages (chat c))) = ''system'' \<longrightarrow>
      first_turn_events (trace c) = [] \<longrightarrow> cloud_turns requests c = Some c'' \<longrightarrow>
        bootstrap_once (first_turn_events (trace c''))"
  proof (intro impI)
    assume l: "length (messages (chat c)) = 1" and r: "role (hd (messages (chat c))) = ''system''"
      and e: "first_turn_events (trace c) = []" and run: "cloud_turns requests c = Some c''"
    from l have ne: "messages (chat c) \<noteq> []" by auto
    show "bootstrap_once (first_turn_events (trace c''))"
      by (rule cloud_turns_once [OF run _ _ _ ne r]) (simp_all add: e l)
  qed
  from twilio cloud twilio_run cloud_run show ?thesis by blast
qed

theorem language_bootstrap_first_turn_witness:
  "first_turn_events (trace (twilio_turns
       [(example_env ''Hi Ada!'' (\<lambda>n. True), example_sender, \<lparr>body = Some '' '', media = None\<rparr>),
        (example_env ''Hi Ada!'' (\<lambda>n. True), example_sender, \<lparr>body = Some ''hello'', media = None\<rparr>),
        (example_env ''You are welcome.'' (\<lambda>n. True), example_sender, \<lparr>body = Some ''thanks'', media = None\<rparr>)]
       example_state))
     = [EnsureUserLanguage ''hello'', AddMessage ''user'' ''hello'', AddMessage ''user'' ''thanks'']
   \<and> bootstrap_once (first_turn_events (trace (twilio_turns
       [(example_env ''Hi Ada!'' (\<lambda>n. True), example_sender, \<lparr>body = Some '' '', media = None\<rparr>),
        (example_env ''Hi Ada!'' (\<lambda>n. True), example_sender, \<lparr>body = Some ''hello'', media = None\<rparr>),
        (example_env ''You are welcome.'' (\<lambda>n. True), example_sender, \<lparr>body = Some ''thanks'', media = None\<rparr>)]
       example_state)))
   \<and> (\<exists>rest. trace (snd (reply_to_whatsapp_message (example_env ''Hi Ada!'' (\<lambda>n. True)) example_sender
                    \<lparr>body = Some ''hello'', media = None\<rparr> example_state))
          = EnsureUserLanguage ''hello'' # AddMessage ''user'' ''hello'' # rest
        \<and> first_turn_events rest = [])
   \<and> first_turn_events (trace (snd (reply_to_whatsapp_message (example_env ''Hi Ada!'' (\<lambda>n. True)) example_sender
                    \<lparr>body = Some '' '', media = None\<rparr> example_state))) = []
   \<and> (\<exists>rest. trace (snd (process_text (example_env ''Hi Ada!'' (\<lambda>n. True))
                    ''34600000000'' ''Ada'' ''wamid.1'' ''hello'' example_state))
          = MarkAsRead ''wamid.1'' # EnsureUserLanguage ''hello'' # AddMessage ''user'' ''hello'' # rest
        \<and> first_turn_events rest = [])
   \<and> (\<exists>c. cloud_turns
         [(example_env ''Hi Ada!'' (\<lambda>n. True), Inr (text_payload ''34600000000'' ''Ada'' ''wamid.1'' ''hello'')),
          (example_env ''You are welcome.'' (\<lambda>n. True), Inr (text_payload ''34600000000'' ''Ada'' ''wamid.2'' ''thanks''))]
         example_state = Some c
        \<and> bootstrap_once (first_turn_events (trace c)))"
proof -
  let ?E = "example_env ''Hi Ada!'' (\<lambda>n. True)"
  let ?E2 = "example_env ''You are welcome.'' (\<lambda>n. True)"
  let ?blank = "\<lparr>body = Some '' '', media = None\<rparr>"
  let ?hello = "\<lparr>body = Some ''hello'', media = None\<rparr>"
  let ?turns = "[(?E, example_sender, ?blank), (?E, example_sender, ?hello),
        (?E2, example_sender, \<lparr>body = Some ''thanks'', media = None\<rparr>)]"
  let ?reqs = "[(?E, Inr (text_payload ''34600000000'' ''Ada'' ''wamid.1'' ''hello'')),
          (?E2, Inr (text_payload ''34600000000'' ''Ada'' ''wamid.2'' ''thanks''))]"
  let ?s1 = "snd (set_system_message ?E example_sender example_state)"
  let ?c1 = "snd (mark_as_read ?E ''wamid.1'' example_state)"
  let ?c2 = "snd (ensure_system_message ?E ''Ada'' ?c1)"
  let ?c' = "snd (process_text ?E ''34600000000'' ''Ada'' ''wamid.1'' ''hello'' example_state)"
  have h1: "set_system_message ?E example_sender example_state = (Inr (), ?s1)"
    by (simp add: twilio_defs step_defs example_defs)
  have h2: "verify_and_process_media ?E ?hello ?s1 = (Inr (Some ''hello''), ?s1)"
    "verify_and_process_media ?E ?blank ?s1 = (Inr (Some '' ''), ?s1)"
    by (simp_all add: verify_and_process_media_def)
  have h3: "fst (message_empty_or_goodbye ?E (Some ''hello'') ?s1) = Inr False"
    "fst (message_empty_or_goodbye ?E (Some '' '') ?s1) \<noteq> Inr False"
    by (simp_all add: twilio_defs step_defs example_defs)
  have h4: "mark_as_read ?E ''wamid.1'' example_state = (Inr (), ?c1)"
    "ensure_system_message ?E ''Ada'' ?c1 = (Inr (), ?c2)"
    by (simp_all add: cloud_defs step_defs example_defs)
  have h5: "process_webhook ?E (Inr (text_payload ''34600000000'' ''Ada'' ''wamid.1'' ''hello'')) example_state
      = Some (fst (respond (process_text ?E ''34600000000'' ''Ada'' ''wamid.1'' ''hello'' example_state)), ?c')"
    by (simp add: process_webhook_text prod_eq_iff)
  have h6: "length (messages (chat example_state)) = 1" "role (hd (messages (chat example_state))) = ''system''"
    "first_turn_events (trace example_state) = []"
    by (simp_all add: example_defs make_message_def first_turn_events_def)
  obtain c where h7: "cloud_turns ?reqs example_state = Some c"
    by (simp add: process_webhook_text cloud_defs step_defs example_defs)
  have l1: "length (messages (chat ?s1)) = 1" "trace ?s1 = []"
    and l2: "length (messages (chat ?c2)) = 1" "trace ?c2 = [MarkAsRead ''wamid.1'']"
    by (simp_all add: twilio_defs cloud_defs step_defs example_defs)
  note t1 = language_bootstrap_first_turn [of ?E example_sender example_state ?s1 ?hello "Some ''hello''" ?s1
      "''wamid.1''" example_state ?c1 "''Ada''" ?c2 "''34600000000''" "''hello''"
      "fst (respond (process_text ?E ''34600000000'' ''Ada'' ''wamid.1'' ''hello'' example_state))" ?c'
      ?turns ?reqs c]
  note t2 = language_bootstrap_first_turn [of ?E example_sender example_state ?s1 ?blank "Some '' ''" ?s1
      "''wamid.1''" example_state ?c1 "''Ada''" ?c2 "''34600000000''" "''hello''"
      "fst (respond (process_text ?E ''34600000000'' ''Ada'' ''wamid.1'' ''hello'' example_state))" ?c'
      ?turns ?reqs c]
  have a: "bootstrap_once (first_turn_events (trace (twilio_turns ?turns example_state)))"
    using t1 h6 by blast
  have b: "\<exists>rest. trace (snd (reply_to_whatsapp_message ?E example_sender ?hello example_state))
          = EnsureUserLanguage ''hello'' # AddMessage ''user'' ''hello'' # rest
        \<and> first_turn_events rest = []"
    using t1 h1 h2(1) h3(1) l1 by simp
  have c: "first_turn_events (trace (snd (reply_to_whatsapp_message ?E example_sender ?blank example_state))) = []"
    using t2 h1 h2(2) h3(2) h6(3) by simp
  have d: "\<exists>rest. trace ?c'
          = MarkAsRead ''wamid.1'' # EnsureUserLanguage ''hello'' # AddMessage ''user'' ''hello'' # rest
        \<and> first_turn_events rest = []"
    using t1 h4 h5 l2 by simp
  have e: "bootstrap_once (first_turn_events (trace c))"
    using t1 h6 h7 by blast
  have f: "first_turn_events (trace (twilio_turns ?turns example_state))
     = [EnsureUserLanguage ''hello'', AddMessage ''user'' ''hello'', AddMessage ''user'' ''thanks'']"
    by (simp add: twilio_defs step_defs example_defs first_turn_events_def)
  from a b c d e f h7 show ?thesis by blast
qed

subsection \<open>The termination check of the Twilio handler\<close>

lemma strip_empty_iff: "strip m = [] \<longleftrightarrow> (\<forall>c \<in> set m. py_isspace c)"
proof (cases "dropWhile py_isspace m")
  case Nil
  then have "\<forall>c \<in> set m. py_isspace c" by (simp add: dropWhile_eq_Nil_conv)
  moreover have "strip m = []" by (simp add: strip_def Nil)
  ultimately show ?thesis by simp
next
  case (Cons x xs)
  then have "\<not> py_isspace x" using hd_dropWhile [of py_isspace m] by auto
  moreover have "x \<in> set m" using Cons set_dropWhileD [of x py_isspace m] by simp
  moreover have "x \<in> set (rev (dropWhile py_isspace m))" using Cons by simp
  ultimately show ?thesis
    by (auto simp: strip_def dropWhile_eq_Nil_conv)
qed

lemma verify_and_process_media_trace:
  "trace (snd (verify_and_process_media env new_message s))
     = trace s @ (case media new_message of
                    Some (AudioMedia, Some ref) \<Rightarrow> [Transcription ref]
                  | _ \<Rightarrow> [])"
  "posts (snd (verify_and_process_media env new_message s)) = posts s"
  by (simp_all add: verify_and_process_media_def emit_def
      split: option.splits prod.splits media_kind.splits sum.splits)

lemma set_system_message_posts [simp]:
  "posts (snd (set_system_message env sndr s)) = posts s"
  by (simp add: set_system_message_def Let_def split: option.splits sum.splits)

lemma set_system_message_sender [simp]:
  "sender (chat (snd (set_system_message env sndr s))) = sender (chat s)"
  "goodbye_message (chat (snd (set_system_message env sndr s))) = goodbye_message (chat s)"
  by (simp_all add: set_system_message_def Let_def split: option.splits sum.splits)

lemma empty_text_ends_turn:
  assumes a: "set_system_message env sndr s = (Inr (), s1)"
    and b: "verify_and_process_media env new_message s1 = (Inr msg, s2)"
    and e: "msg = None \<or> (\<exists>m. msg = Some m \<and> (\<forall>c \<in> set m. py_isspace c))"
  shows "fst (reply_to_whatsapp_message env sndr new_message s) = Inr ''ok''
          \<and> chat (snd (reply_to_whatsapp_message env sndr new_message s)) = chat s1
          \<and> trace (snd (reply_to_whatsapp_message env sndr new_message s))
              = trace s
                @ (case media new_message of Some (AudioMedia, Some ref) \<Rightarrow> [Transcription ref] | _ \<Rightarrow> [])
                @ [if post_ok env (posts s)
                   then SendText (phone_number (sender (chat s))) didnt_understand
                   else SendFailed (phone_number (sender (chat s))) didnt_understand]"
proof -
  have s1: "trace s1 = trace s" "posts s1 = posts s" "sender (chat s1) = sender (chat s)"
    using set_system_message_trace [of env sndr s] set_system_message_posts [of env sndr s]
      set_system_message_sender [of env sndr s] a by simp_all
  have s2: "chat s2 = chat s1" "posts s2 = posts s"
    "trace s2 = trace s @ (case media new_message of Some (AudioMedia, Some ref) \<Rightarrow> [Transcription ref] | _ \<Rightarrow> [])"
    using verify_and_process_media_chat [of env new_message s1]
      verify_and_process_media_trace [of env new_message s1] b s1 by simp_all
  show ?thesis
    using a b e s1 s2
    by (auto simp: reply_to_whatsapp_message_def message_empty_or_goodbye_def
        check_message_empty_def strip_empty_iff twilio_send_message_def request_def)
qed

text \<open>
  The Twilio handler ends the turn at the termination check: for a text that is
  \<^verbatim>\<open>None\<close>, empty or blank it sends the fixed notice and returns "ok"; for a text
  that the classifier takes for the end of the conversation it sends the goodbye
  message, rendered with the name of the sender, and returns "ok". The conversation is
  the one the first step left, and the events of the turn are the transcription, if
  the normalization made one, and the one send.
\<close>

lemma twilio_termination_check:
  assumes a: "set_system_message env sndr s = (Inr (), s1)"
    and b: "verify_and_process_media env new_message s1 = (Inr msg, s2)"
  shows "(msg = None \<or> (\<exists>m. msg = Some m \<and> (\<forall>c \<in> set m. py_isspace c)) \<longrightarrow>
            fst (reply_to_whatsapp_message env sndr new_message s) = Inr ''ok''
          \<and> chat (snd (reply_to_whatsapp_message env sndr new_message s)) = chat s1
          \<and> trace (snd (reply_to_whatsapp_message env sndr new_message s))
              = trace s
                @ (case media new_message of Some (AudioMedia, Some ref) \<Rightarrow> [Transcription ref] | _ \<Rightarrow> [])
                @ [if post_ok env (posts s)
                   then SendText (phone_number (sender (chat s))) didnt_understand
                   else SendFailed (phone_number (sender (chat s))) didnt_understand])
       \<and> (\<forall>m text. msg = Some m \<longrightarrow> \<not> (\<forall>c \<in> set m. py_isspace c) \<longrightarrow>
            check_conversation_end env msg (chat s1) \<longrightarrow>
            str_format env (goodbye_message (chat s)) [(''user'', name (sender (chat s)))] = Inr text \<longrightarrow>
            fst (reply_to_whatsapp_message env sndr new_message s) = Inr ''ok''
          \<and> chat (snd (reply_to_whatsapp_message env sndr new_message s)) = chat s1
          \<and> trace (snd (reply_to_whatsapp_message env sndr new_message s))
              = trace s
                @ (case media new_message of Some (AudioMedia, Some ref) \<Rightarrow> [Transcription ref] | _ \<Rightarrow> [])
                @ [if post_ok env (posts s)
                   then SendText (phone_number (sender (chat s))) text
                   else SendFailed (phone_number (sender (chat s))) text])"
proof -
  have s1: "trace s1 = trace s" "posts s1 = posts s" "sender (chat s1) = sender (chat s)"
    "goodbye_message (chat s1) = goodbye_message (chat s)"
    using set_system_message_trace [of env sndr s] set_system_message_posts [of env sndr s]
      set_system_message_sender [of env sndr s] a by simp_all
  have s2: "chat s2 = chat s1" "posts s2 = posts s"
    "trace s2 = trace s @ (case media new_message of Some (AudioMedia, Some ref) \<Rightarrow> [Transcription ref] | _ \<Rightarrow> [])"
    using verify_and_process_media_chat [of env new_message s1]
      verify_and_process_media_trace [of env new_message s1] b s1 by simp_all
  have goodbye: "\<forall>m text. msg = Some m \<longrightarrow> \<not> (\<forall>c \<in> set m. py_isspace c) \<longrightarrow>
            check_conversation_end env msg (chat s1) \<longrightarrow>
            str_format env (goodbye_message (chat s)) [(''user'', name (sender (chat s)))] = Inr text \<longrightarrow>
            fst (reply_to_whatsapp_message env sndr new_message s) = Inr ''ok''
          \<and> chat (snd (reply_to_whatsapp_message env sndr new_message s)) = chat s1
          \<and> trace (snd (reply_to_whatsapp_message env sndr new_message s))
              = trace s
                @ (case media new_message of Some (AudioMedia, Some ref) \<Rightarrow> [Transcription ref] | _ \<Rightarrow> [])
                @ [if post_ok env (posts s)
                   then SendText (phone_number (sender (chat s))) text
                   else SendFailed (phone_number (sender (chat s))) text]"
    using a b s1 s2
    by (auto simp: reply_to_whatsapp_message_def message_empty_or_goodbye_def
        check_message_empty_def strip_empty_iff twilio_send_message_def request_def)
  from empty_text_ends_turn [OF a b] goodbye show ?thesis by blast
qed

text \<open>
  C4. The claim: every inbound turn whose text is empty or blank gets the fixed notice,
  every turn whose text matches the end of the conversation gets the goodbye message,
  and in both cases the handler returns without a change to the transcript. The Cloud
  handler has no such check. At a text message with the empty body, and at the text
  "bye", which the classifier of the example takes for the end of the conversation,
  it runs the whole turn: the language bootstrap, the append of the user message, the
  completion, the send of the reply and the append of the assistant message; neither
  the notice nor the goodbye message is sent. The Twilio handler at the same two texts
  sends the notice and the goodbye message and leaves the transcript with its system
  message alone.
\<close>

theorem cloud_turn_is_never_terminated:
  "map_option (\<lambda>r. (fst r, trace (snd r), map role (messages (chat (snd r)))))
     (process_webhook (example_env ''Hi Ada!'' (\<lambda>n. True))
        (Inr (text_payload ''34600000000'' ''Ada'' ''wamid.1'' [])) example_state)
   = Some ((''ok'', 200),
           [MarkAsRead ''wamid.1'', EnsureUserLanguage [], AddMessage ''user'' [],
            SendText ''34600000000'' ''Hi Ada!'', AddMessage ''assistant'' ''Hi Ada!''],
           [''system'', ''user'', ''assistant''])
   \<and> check_conversation_end (example_env ''Hi Ada!'' (\<lambda>n. True)) (Some ''bye'') example_chat
   \<and> map_option (\<lambda>r. (fst r, trace (snd r), map role (messages (chat (snd r)))))
     (process_webhook (example_env ''Hi Ada!'' (\<lambda>n. True))
        (Inr (text_payload ''34600000000'' ''Ada'' ''wamid.1'' ''bye'')) example_state)
   = Some ((''ok'', 200),
           [MarkAsRead ''wamid.1'', EnsureUserLanguage ''bye'', AddMessage ''user'' ''bye'',
            SendText ''34600000000'' ''Hi Ada!'', AddMessage ''assistant'' ''Hi Ada!''],
           [''system'', ''user'', ''assistant''])
   \<and> (\<lambda>r. (fst r, trace (snd r), map role (messages (chat (snd r)))))
       (reply_to_whatsapp_message (example_env ''Hi Ada!'' (\<lambda>n. True)) example_sender
          \<lparr>body = Some [], media = None\<rparr> example_state)
     = (Inr ''ok'', [SendText ''whatsapp:+34600000000'' didnt_understand], [''system''])
   \<and> (\<lambda>r. (fst r, trace (snd r), map role (messages (chat (snd r)))))
       (reply_to_whatsapp_message (example_env ''Hi Ada!'' (\<lambda>n. True)) example_sender
          \<lparr>body = Some ''bye'', media = None\<rparr> example_state)
     = (Inr ''ok'',
        [SendText ''whatsapp:+34600000000'' ''Goodbye! I'll be here if you need me.''],
        [''system''])"
  by (simp add: process_webhook_text cloud_defs twilio_defs step_defs example_defs)

subsection \<open>Bodies that the Cloud handler cannot parse\<close>

lemma parse_never_key_or_index:
  "parse_whatsapp_message data \<noteq> Inl KeyError \<and> parse_whatsapp_message data \<noteq> Inl IndexError"
  by (simp add: parse_whatsapp_message_def split: sum.splits)

lemma unparsed_acknowledged:
  "parse_whatsapp_message data = Inr None \<Longrightarrow>
   process_webhook env (Inr data) s = Some ((''ok'', 200), s)"
  by (simp add: process_webhook_def)

lemma missing_keys_acknowledged:
  "process_webhook env (Inr (JObj [])) s = Some ((''ok'', 200), s)"
  "process_webhook env (Inr (JObj [(''entry'', JArr [])])) s = Some ((''ok'', 200), s)"
  "process_webhook env (Inr (JObj [(''entry'', JArr [JObj [(''changes'', JArr [JObj
       [(''value'', JObj [(''statuses'', JArr [])])]])]])])) s = Some ((''ok'', 200), s)"
  by (simp_all add: process_webhook_def parse_whatsapp_message_def parse_body_def and_then_def
      getitem_def getitem0_def contains_def get_def lookup_def)

text \<open>
  C9. The claim: a body that lacks the expected nesting makes \<^verbatim>\<open>parse_whatsapp_message\<close>
  return \<^verbatim>\<open>None\<close> rather than raise, and the handler answers "ok" with status 200. A
  missing key or an empty list does (the lemmas above); a body in which the value of the
  change is \<^verbatim>\<open>null\<close> does not: \<^verbatim>\<open>"messages" in value\<close> raises TypeError, which is
  neither of the two exceptions the function catches, and the handler answers "error"
  with status 500.
\<close>

theorem null_value_answers_error:
  "parse_whatsapp_message null_value_payload = Inl TypeError
   \<and> process_webhook env (Inr null_value_payload) s = Some ((''error'', 500), s)"
  by (simp add: process_webhook_def parse_whatsapp_message_def parse_body_def and_then_def
      getitem_def getitem0_def contains_def get_def lookup_def null_value_payload_def)


subsection \<open>Messages that carry media\<close>

lemma non_text_acknowledged:
  "parse_whatsapp_message data = Inr (Some md) \<Longrightarrow> md_type md \<noteq> JStr ''text'' \<Longrightarrow>
   process_webhook env (Inr data) c = Some ((''ok'', 200), c)"
  by (simp add: process_webhook_def)

lemma parse_audio_payload:
  "parse_whatsapp_message (audio_payload f n i m)
     = Inr (Some \<lparr>md_from = JStr f, md_name = JStr n, md_message_id = JStr i,
                  md_timestamp = JStr ''1714600000'', md_type = JStr ''audio'',
                  md_text = JNull, md_image = JNull,
                  md_audio = JObj [(''id'', JStr m), (''mime_type'', JStr ''audio/ogg; codecs=opus'')]\<rparr>)"
  by (simp add: parse_whatsapp_message_def parse_body_def audio_payload_def and_then_def
      getitem_def getitem0_def contains_def get_def lookup_def)

lemma twilio_turn_extends:
  assumes a: "set_system_message env sndr s = (Inr (), s1)"
    and b: "verify_and_process_media env new_message s1 = (r2, s2)"
  shows "\<exists>rest. trace (snd (reply_to_whatsapp_message env sndr new_message s)) = trace s2 @ rest"
proof (cases r2)
  case (Inl e)
  with a b show ?thesis by (simp add: reply_to_whatsapp_message_def)
next
  case (Inr msg)
  obtain r3 s3 where c: "message_empty_or_goodbye env msg s2 = (r3, s3)"
    by (cases "message_empty_or_goodbye env msg s2")
  have s3: "silent s2 s3" using message_empty_or_goodbye_silent [of s2 env msg] c by simp
  show ?thesis
  proof (cases "r3 = Inr False")
    case False
    then have "snd (reply_to_whatsapp_message env sndr new_message s) = s3"
      using a b c Inr by (cases r3) (auto simp: reply_to_whatsapp_message_def)
    with s3 show ?thesis by (auto simp: silent_def)
  next
    case True
    with c have "s3 = s2" using message_empty_or_goodbye_passes by blast
    with True a b c Inr have "reply_to_whatsapp_message env sndr new_message s
        = generate_and_relay env (case msg of None \<Rightarrow> [] | Some m \<Rightarrow> m) s2"
      by (simp add: reply_to_whatsapp_message_def)
    then show ?thesis
      using generate_and_relay_events [of env "case msg of None \<Rightarrow> [] | Some m \<Rightarrow> m" s2]
      by auto
  qed
qed

lemma set_system_message_emit:
  "set_system_message env sndr (emit es s)
     = (fst (set_system_message env sndr s), emit es (snd (set_system_message env sndr s)))"
  by (simp add: set_system_message_def emit_def Let_def split: option.splits sum.splits)

text \<open>
  A voice note whose transcription succeeds is handled as the text message with the
  transcription as its body, the transcription being the first event of the turn.
\<close>

lemma voice_note_as_text:
  assumes a: "set_system_message env sndr s = (Inr (), s1)"
    and m: "media new_message = Some (AudioMedia, Some ref)"
    and w: "whisper_transcription env ref = Inr transcript"
  shows "reply_to_whatsapp_message env sndr new_message s
     = reply_to_whatsapp_message env sndr \<lparr>body = Some transcript, media = None\<rparr>
         (emit [Transcription ref] s)"
proof -
  have "set_system_message env sndr (emit [Transcription ref] s)
      = (Inr (), emit [Transcription ref] s1)"
    using a by (simp add: set_system_message_emit)
  moreover have "verify_and_process_media env new_message s1
      = (Inr (Some transcript), emit [Transcription ref] s1)"
    using m w by (simp add: verify_and_process_media_def)
  moreover have "verify_and_process_media env \<lparr>body = Some transcript, media = None\<rparr>
        (emit [Transcription ref] s1)
      = (Inr (Some transcript), emit [Transcription ref] s1)"
    by (simp add: verify_and_process_media_def)
  ultimately show ?thesis using a by (simp add: reply_to_whatsapp_message_def)
qed

text \<open>
  C8, as amended. In the Twilio handler, once the system message of the turn is set: a
  voice note is handed to the transcription service before anything else happens in
  the turn, and the text the service returns is the text of the turn from the
  termination check on; an empty or failed media payload gives the empty string, and
  the turn then ends in the branch of the empty text, with the fixed notice and the
  answer "ok", not with an error. The Cloud handler processes no media: a message
  whose type is not "text" is answered "ok" with status 200, and nothing else happens.
\<close>

theorem media_normalization:
  "(set_system_message env sndr s = (Inr (), s1) \<longrightarrow>
     (\<forall>ref. media new_message = Some (AudioMedia, Some ref) \<longrightarrow>
         (\<exists>rest. trace (snd (reply_to_whatsapp_message env sndr new_message s))
                    = trace s @ Transcription ref # rest)
       \<and> (\<forall>transcript. whisper_transcription env ref = Inr transcript \<longrightarrow>
            reply_to_whatsapp_message env sndr new_message s
              = reply_to_whatsapp_message env sndr \<lparr>body = Some transcript, media = None\<rparr>
                  (emit [Transcription ref] s)))
   \<and> ((\<exists>kind. media new_message = Some (kind, None)) \<longrightarrow>
         fst (reply_to_whatsapp_message env sndr new_message s) = Inr ''ok''
       \<and> chat (snd (reply_to_whatsapp_message env sndr new_message s)) = chat s1
       \<and> trace (snd (reply_to_whatsapp_message env sndr new_message s))
           = trace s
             @ [if post_ok env (posts s)
                then SendText (phone_number (sender (chat s))) didnt_understand
                else SendFailed (phone_number (sender (chat s))) didnt_understand]))
  \<and> (parse_whatsapp_message data = Inr (Some md) \<longrightarrow> md_type md \<noteq> JStr ''text'' \<longrightarrow>
       process_webhook env (Inr data) c = Some ((''ok'', 200), c))"
proof -
  have first: "\<exists>rest. trace (snd (reply_to_whatsapp_message env sndr new_message s))
                    = trace s @ Transcription ref # rest"
    if a: "set_system_message env sndr s = (Inr (), s1)"
      and m: "media new_message = Some (AudioMedia, Some ref)" for ref
  proof -
    obtain r2 s2 where b: "verify_and_process_media env new_message s1 = (r2, s2)"
      by (cases "verify_and_process_media env new_message s1")
    have "trace s2 = trace s @ [Transcription ref]"
      using verify_and_process_media_trace(1) [of env new_message s1] b m
        set_system_message_trace [of env sndr s] a by simp
    with twilio_turn_extends [OF a b] show ?thesis by auto
  qed
  have empty: "fst (reply_to_whatsapp_message env sndr new_message s) = Inr ''ok''
       \<and> chat (snd (reply_to_whatsapp_message env sndr new_message s)) = chat s1
       \<and> trace (snd (reply_to_whatsapp_message env sndr new_message s))
           = trace s
             @ [if post_ok env (posts s)
                then SendText (phone_number (sender (chat s))) didnt_understand
                else SendFailed (phone_number (sender (chat s))) didnt_understand]"
    if a: "set_system_message env sndr s = (Inr (), s1)"
      and m: "\<exists>kind. media new_message = Some (kind, None)"
  proof -
    from m obtain kind where k: "media new_message = Some (kind, None)" by blast
    then have b: "verify_and_process_media env new_message s1 = (Inr (Some []), s1)"
      by (simp add: verify_and_process_media_def split: media_kind.splits)
    have "Some [] = None \<or> (\<exists>m. Some [] = Some m \<and> (\<forall>c \<in> set m. py_isspace c))" by simp
    from empty_text_ends_turn [OF a b this] k show ?thesis
      by (simp split: media_kind.splits)
  qed
  from first voice_note_as_text [of env sndr s s1 new_message] empty
    non_text_acknowledged [of data md env c]
  show ?thesis by blast
qed

theorem media_normalization_witness:
  "(\<exists>rest. trace (snd (reply_to_whatsapp_message (example_env ''Hi Ada!'' (\<lambda>n. True))
          example_sender
          \<lparr>body = None, media = Some (AudioMedia, Some ''https://media.example/voice.ogg'')\<rparr>
          example_state))
       = Transcription ''https://media.example/voice.ogg'' # rest)
   \<and> reply_to_whatsapp_message (example_env ''Hi Ada!'' (\<lambda>n. True)) example_sender
          \<lparr>body = None, media = Some (AudioMedia, Some ''https://media.example/voice.ogg'')\<rparr>
          example_state
       = reply_to_whatsapp_message (example_env ''Hi Ada!'' (\<lambda>n. True)) example_sender
          \<lparr>body = Some ''hello'', media = None\<rparr>
          (emit [Transcription ''https://media.example/voice.ogg''] example_state)
   \<and> fst (reply_to_whatsapp_message (example_env ''Hi Ada!'' (\<lambda>n. True)) example_sender
          \<lparr>body = None, media = Some (AudioMedia, None)\<rparr> example_state) = Inr ''ok''
   \<and> trace (snd (reply_to_whatsapp_message (example_env ''Hi Ada!'' (\<lambda>n. True)) example_sender
          \<lparr>body = None, media = Some (AudioMedia, None)\<rparr> example_state))
       = [SendText ''whatsapp:+34600000000'' didnt_understand]
   \<and> process_webhook (example_env ''Hi Ada!'' (\<lambda>n. True))
        (Inr (audio_payload ''34600000000'' ''Ada'' ''wamid.3'' ''media.1'')) example_state
       = Some ((''ok'', 200), example_state)"
proof -
  let ?E = "example_env ''Hi Ada!'' (\<lambda>n. True)"
  let ?voice = "\<lparr>body = None, media = Some (AudioMedia, Some ''https://media.example/voice.ogg'')\<rparr>"
  let ?void = "\<lparr>body = None, media = Some (AudioMedia, None)\<rparr>"
  let ?s1 = "snd (set_system_message ?E example_sender example_state)"
  let ?md = "\<lparr>md_from = JStr ''34600000000'', md_name = JStr ''Ada'', md_message_id = JStr ''wamid.3'',
                  md_timestamp = JStr ''1714600000'', md_type = JStr ''audio'',
                  md_text = JNull, md_image = JNull,
                  md_audio = JObj [(''id'', JStr ''media.1''), (''mime_type'', JStr ''audio/ogg; codecs=opus'')]\<rparr>"
  have h1: "set_system_message ?E example_sender example_state = (Inr (), ?s1)"
    by (simp add: twilio_defs step_defs example_defs)
  have m: "media ?voice = Some (AudioMedia, Some ''https://media.example/voice.ogg'')"
    and v: "\<exists>kind. media ?void = Some (kind, None)"
    by simp_all
  have heard: "whisper_transcription ?E ''https://media.example/voice.ogg'' = Inr ''hello''"
    by (simp add: example_env_def)
  have facts: "posts example_state = 0" "trace example_state = []"
    "phone_number (sender (chat example_state)) = ''whatsapp:+34600000000''" "post_ok ?E 0"
    by (simp_all add: example_defs)
  have p: "parse_whatsapp_message (audio_payload ''34600000000'' ''Ada'' ''wamid.3'' ''media.1'') = Inr (Some ?md)"
    by (rule parse_audio_payload)
  have t: "md_type ?md \<noteq> JStr ''text''" by simp
  note w1 = media_normalization [of ?E example_sender example_state ?s1 ?voice
      "audio_payload ''34600000000'' ''Ada'' ''wamid.3'' ''media.1''" ?md example_state]
  note w2 = media_normalization [of ?E example_sender example_state ?s1 ?void
      "audio_payload ''34600000000'' ''Ada'' ''wamid.3'' ''media.1''" ?md example_state]
  have a: "\<exists>rest. trace (snd (reply_to_whatsapp_message ?E example_sender ?voice example_state))
       = Transcription ''https://media.example/voice.ogg'' # rest"
  proof -
    from w1 h1 m
    have "\<exists>rest. trace (snd (reply_to_whatsapp_message ?E example_sender ?voice example_state))
       = trace example_state @ Transcription ''https://media.example/voice.ogg'' # rest"
      by blast
    then show ?thesis by (simp add: facts)
  qed
  have b: "reply_to_whatsapp_message ?E example_sender ?voice example_state
       = reply_to_whatsapp_message ?E example_sender \<lparr>body = Some ''hello'', media = None\<rparr>
          (emit [Transcription ''https://media.example/voice.ogg''] example_state)"
    using w1 h1 m heard by blast
  have c: "fst (reply_to_whatsapp_message ?E example_sender ?void example_state) = Inr ''ok''
     \<and> trace (snd (reply_to_whatsapp_message ?E example_sender ?void example_state))
       = [SendText ''whatsapp:+34600000000'' didnt_understand]"
  proof -
    from w2 h1 v
    have "fst (reply_to_whatsapp_message ?E example_sender ?void example_state) = Inr ''ok''
       \<and> trace (snd (reply_to_whatsapp_message ?E example_sender ?void example_state))
           = trace example_state
             @ [if post_ok ?E (posts example_state)
                then SendText (phone_number (sender (chat example_state))) didnt_understand
                else SendFailed (phone_number (sender (chat example_state))) didnt_understand]"
      by blast
    then show ?thesis by (simp add: facts)
  qed
  have d: "process_webhook ?E (Inr (audio_payload ''34600000000'' ''Ada'' ''wamid.3'' ''media.1'')) example_state
       = Some ((''ok'', 200), example_state)"
    using w2 p t by blast
  from a b c d show ?thesis by blast
qed

text \<open>
  The claim as it stands fails in the Cloud handler: a voice note is answered "ok" and
  leaves no event, so the transcription service is not invoked and no notice is sent.
\<close>

theorem cloud_voice_note_counterexample:
  "process_webhook (example_env ''Hi Ada!'' (\<lambda>n. True))
     (Inr (audio_payload ''34600000000'' ''Ada'' ''wamid.3'' ''media.1'')) example_state
   = Some ((''ok'', 200), example_state)
   \<and> trace example_state = []"
  by (simp add: process_webhook_def parse_audio_payload example_state_def)

section \<open>Facts about the webhook verification\<close>

text \<open>
  C10. A GET on the verification endpoint returns the supplied challenge with status 200
  if and only if the mode is "subscribe" and the token equals the configured verify
  token (the default "your-verify-token" when the environment variable is unset), and
  returns the body "Forbidden" with status 403 in every other case.
\<close>

theorem verify_webhook_iff:
  "(verify_webhook environ_token mode token challenge = (challenge, 200)
      \<longleftrightarrow> mode = Some ''subscribe''
          \<and> token = Some (case environ_token of None \<Rightarrow> ''your-verify-token'' | Some v \<Rightarrow> v))
   \<and> (verify_webhook environ_token mode token challenge = (Some ''Forbidden'', 403)
      \<longleftrightarrow> \<not> (mode = Some ''subscribe''
          \<and> token = Some (case environ_token of None \<Rightarrow> ''your-verify-token'' | Some v \<Rightarrow> v)))"
  by (simp add: verify_webhook_def Let_def)

theorem verify_webhook_iff_witness:
  "verify_webhook None (Some ''subscribe'') (Some ''your-verify-token'') (Some ''1158201444'')
     = (Some ''1158201444'', 200)
   \<and> verify_webhook (Some ''s3cret'') (Some ''subscribe'') (Some ''your-verify-token'') (Some ''1158201444'')
     = (Some ''Forbidden'', 403)"
  using verify_webhook_iff [of None "Some ''subscribe''" "Some ''your-verify-token''" "Some ''1158201444''"]
        verify_webhook_iff [of "Some ''s3cret''" "Some ''subscribe''" "Some ''your-verify-token''" "Some ''1158201444''"]
  by simp

end
